theory Spec2Isabelle
  imports Complex_Main
begin

section \<open>Order execution engine: numbers, quotes and the retry delay\<close>

text \<open>
  The engine is TypeScript. A value of type \<open>number\<close> is a double; the development keeps
  the three special values apart and lets a real stand for every finite double. Rounding
  is not part of any statement below: numbers are only compared, copied and, in the retry
  delay, scaled by powers of two.
\<close>

datatype number = Fin real | PosInf | NegInf | NaN

text \<open>The comparison operators of the language: every comparison with NaN is false.\<close>

fun num_gt :: "number \<Rightarrow> number \<Rightarrow> bool" where
  "num_gt (Fin x) (Fin y) = (y < x)"
| "num_gt PosInf (Fin y) = True"
| "num_gt PosInf NegInf = True"
| "num_gt (Fin x) NegInf = True"
| "num_gt a b = False"

definition num_lt :: "number \<Rightarrow> number \<Rightarrow> bool" where
  "num_lt a b = num_gt b a"

fun num_le :: "number \<Rightarrow> number \<Rightarrow> bool" where
  "num_le NaN b = False"
| "num_le a NaN = False"
| "num_le a b = (\<not> num_gt a b)"

subsection \<open>Decimal rendering\<close>

function show_nat :: "nat \<Rightarrow> string" where
  "show_nat n =
     (if n < 10 then [''0123456789'' ! n]
      else show_nat (n div 10) @ [''0123456789'' ! (n mod 10)])"
  by pat_completeness auto
termination
  by (relation "measure id") auto

declare show_nat.simps [simp del]

text \<open>
  \<open>Number.prototype.toFixed(1)\<close> on a finite value \<open>x\<close>: the sign, then, below
  \<open>10^21\<close>, the integer nearest to \<open>10 * x\<close> (the larger one on a tie) written with
  its last digit after the point. From \<open>10^21\<close> on, \<open>toFixed\<close> hands over to
  \<open>Number.prototype.toString\<close>, which prints exponential notation; that host function
  is the parameter \<open>toStr\<close>.
\<close>

definition toFixed1 :: "(rat \<Rightarrow> string) \<Rightarrow> rat \<Rightarrow> string" where
  "toFixed1 toStr x =
     (let s = (if x < 0 then ''-'' else ''''); y = \<bar>x\<bar>
      in if 10 ^ 21 \<le> y then s @ toStr y
         else (let n = nat \<lfloor>y * 10 + 1 / 2\<rfloor>
               in s @ show_nat (n div 10) @ ''.'' @ show_nat (n mod 10)))"

text \<open>
  \<^verbatim>\<open>function calculateBackoffDelay(attemptNumber: number): string {
    const baseDelay = 2000;
    const delayMs = baseDelay * Math.pow(2, attemptNumber - 1);
    return `${(delayMs / 1000).toFixed(1)}s`;
  }\<close>
  The same function stands in both worker files.
\<close>

definition baseDelay :: rat where
  "baseDelay = 2000"

definition delayMs :: "nat \<Rightarrow> rat" where
  "delayMs attemptNumber = baseDelay * (2 powi (int attemptNumber - 1))"

definition calculateBackoffDelay :: "(rat \<Rightarrow> string) \<Rightarrow> nat \<Rightarrow> string" where
  "calculateBackoffDelay toStr attemptNumber =
     toFixed1 toStr (delayMs attemptNumber / 1000) @ ''s''"

subsection \<open>Quotes and the choice of venue\<close>

datatype dex = Raydium | Meteora

record quote =
  dex :: dex
  price :: number
  fee :: number

text \<open>
  The worker of the queue \<open>orders\<close> (\<open>orderWorker\<close>):
  \<^verbatim>\<open>const selectedDex = meteoraQuote.price > raydiumQuote.price ? 'meteora' : 'raydium';
  const selectedQuote = selectedDex === 'meteora' ? meteoraQuote : raydiumQuote;\<close>
\<close>

definition selectedDex :: "quote \<Rightarrow> quote \<Rightarrow> string" where
  "selectedDex raydiumQuote meteoraQuote =
     (if num_gt (price meteoraQuote) (price raydiumQuote) then ''meteora'' else ''raydium'')"

definition selectedQuote :: "quote \<Rightarrow> quote \<Rightarrow> quote" where
  "selectedQuote raydiumQuote meteoraQuote =
     (if selectedDex raydiumQuote meteoraQuote = ''meteora'' then meteoraQuote else raydiumQuote)"

text \<open>
  The worker of the queue \<open>order-processing\<close> (\<open>processOrder\<close>):
  \<^verbatim>\<open>const selectedDex = meteoraQuote.price > raydiumQuote.price ? 'METEORA' : 'RAYDIUM';
  const bestPrice = meteoraQuote.price > raydiumQuote.price ? meteoraQuote.price : raydiumQuote.price;\<close>
\<close>

definition selectedDexP :: "quote \<Rightarrow> quote \<Rightarrow> string" where
  "selectedDexP raydiumQuote meteoraQuote =
     (if num_gt (price meteoraQuote) (price raydiumQuote) then ''METEORA'' else ''RAYDIUM'')"

definition bestPrice :: "quote \<Rightarrow> quote \<Rightarrow> number" where
  "bestPrice raydiumQuote meteoraQuote =
     (if num_gt (price meteoraQuote) (price raydiumQuote)
      then price meteoraQuote else price raydiumQuote)"

section \<open>The order store\<close>

text \<open>
  A submitted order. The route builds it with two numbers (\<open>number order\<close>); the queue
  carries it as JSON, where a number is finite or \<open>null\<close> (\<open>real option order\<close>). The
  two timestamps (\<open>createdAt\<close>, \<open>updatedAt\<close>) are left out: no statement below reads
  a clock.
\<close>

record 'n order =
  order_id :: string
  tokenIn :: string
  tokenOut :: string
  amount :: 'n
  slippage :: 'n
  status :: string

text \<open>
  A row of the table \<open>orders\<close>; the four columns filled in by the workers are nullable.
\<close>

record order_row =
  row_id :: string
  token_in :: string
  token_out :: string
  row_amount :: number
  row_slippage :: number
  row_status :: string
  selected_dex :: "string option"
  tx_hash :: "string option"
  executed_price :: "number option"
  row_error :: "string option"

type_synonym db = "string \<rightharpoonup> order_row"

text \<open>The object passed to \<open>db.orders.update\<close>; a field left out is \<open>undefined\<close>.\<close>

record updates =
  upd_status :: "string option"
  upd_selectedDex :: "string option"
  upd_txHash :: "string option"
  upd_executedPrice :: "number option"
  upd_error :: "string option"

definition no_updates :: updates where
  "no_updates = \<lparr>upd_status = None, upd_selectedDex = None, upd_txHash = None,
     upd_executedPrice = None, upd_error = None\<rparr>"

text \<open>SQL's \<open>COALESCE(new, old)\<close>.\<close>

fun COALESCE :: "'a option \<Rightarrow> 'a option \<Rightarrow> 'a option" where
  "COALESCE (Some v) old = Some v"
| "COALESCE None old = old"

text \<open>
  \<^verbatim>\<open>INSERT INTO orders (id, token_in, token_out, amount, slippage, status, ...)\<close>
  The column \<open>id\<close> is the primary key, so inserting an identifier twice raises.
\<close>

definition db_create :: "db \<Rightarrow> number order \<Rightarrow> string + db" where
  "db_create d ord =
     (if d (order_id ord) \<noteq> None
      then Inl ''duplicate key value violates unique constraint''
      else Inr (d(order_id ord \<mapsto>
        \<lparr>row_id = order_id ord, token_in = tokenIn ord, token_out = tokenOut ord,
         row_amount = amount ord, row_slippage = slippage ord, row_status = status ord,
         selected_dex = None, tx_hash = None, executed_price = None, row_error = None\<rparr>)))"

text \<open>
  \<^verbatim>\<open>UPDATE orders SET
     status = COALESCE($1, status),
     selected_dex = COALESCE($2, selected_dex),
     tx_hash = COALESCE($3, tx_hash),
     executed_price = COALESCE($4, executed_price),
     error = COALESCE($5, error),
     updated_at = NOW()
   WHERE id = $6\<close>
  No row with that identifier: nothing is written and nothing is raised. The repository
  holds two versions of the database module; this is the update of the one whose table
  has the column \<open>error\<close>.
\<close>

definition update_row :: "updates \<Rightarrow> order_row \<Rightarrow> order_row" where
  "update_row u r =
     r\<lparr>row_status := (case upd_status u of Some s \<Rightarrow> s | None \<Rightarrow> row_status r),
       selected_dex := COALESCE (upd_selectedDex u) (selected_dex r),
       tx_hash := COALESCE (upd_txHash u) (tx_hash r),
       executed_price := COALESCE (upd_executedPrice u) (executed_price r),
       row_error := COALESCE (upd_error u) (row_error r)\<rparr>"

definition db_update :: "db \<Rightarrow> string \<Rightarrow> updates \<Rightarrow> db" where
  "db_update d orderId u =
     (case d orderId of None \<Rightarrow> d | Some r \<Rightarrow> d(orderId \<mapsto> update_row u r))"

text \<open>
  The update of the other version of the database module, whose table has no column
  \<open>error\<close>; it does not read \<open>updates.error\<close>:
  \<^verbatim>\<open>UPDATE orders SET
     status = COALESCE($1, status),
     selected_dex = COALESCE($2, selected_dex),
     tx_hash = COALESCE($3, tx_hash),
     executed_price = COALESCE($4, executed_price),
     updated_at = NOW()
   WHERE id = $5\<close>
  A row of that table is a row whose \<open>row_error\<close> is never set.
\<close>

definition update_row_plain :: "updates \<Rightarrow> order_row \<Rightarrow> order_row" where
  "update_row_plain u r =
     r\<lparr>row_status := (case upd_status u of Some s \<Rightarrow> s | None \<Rightarrow> row_status r),
       selected_dex := COALESCE (upd_selectedDex u) (selected_dex r),
       tx_hash := COALESCE (upd_txHash u) (tx_hash r),
       executed_price := COALESCE (upd_executedPrice u) (executed_price r)\<rparr>"

definition db_update_plain :: "db \<Rightarrow> string \<Rightarrow> updates \<Rightarrow> db" where
  "db_update_plain d orderId u =
     (case d orderId of None \<Rightarrow> d | Some r \<Rightarrow> d(orderId \<mapsto> update_row_plain u r))"

text \<open>
  Both workers import \<open>db\<close> from \<open>./database\<close>; which of the two versions that is
  cannot be told from the sources, so it is a parameter of an attempt.
\<close>

datatype db_module = ErrorColumn | NoErrorColumn

fun module_update :: "db_module \<Rightarrow> db \<Rightarrow> string \<Rightarrow> updates \<Rightarrow> db" where
  "module_update ErrorColumn d orderId u = db_update d orderId u"
| "module_update NoErrorColumn d orderId u = db_update_plain d orderId u"

section \<open>The workers\<close>

text \<open>
  What a call of \<open>broadcastUpdate\<close> is given besides the order identifier. Every field
  but \<open>status\<close> and \<open>message\<close> is optional; the timestamp is left out.
\<close>

record update_data =
  ev_status :: string
  message :: string
  attempt :: "nat option"
  attempts :: "nat option"
  ev_selectedDex :: "string option"
  ev_txHash :: "string option"
  ev_executedPrice :: "number option"
  ev_error :: "string option"
  nextRetryIn :: "string option"

definition event :: "string \<Rightarrow> string \<Rightarrow> update_data" where
  "event st msg = \<lparr>ev_status = st, message = msg, attempt = None, attempts = None,
     ev_selectedDex = None, ev_txHash = None, ev_executedPrice = None, ev_error = None,
     nextRetryIn = None\<rparr>"

text \<open>
  The job handed over by the queue: the order as read back from JSON, the attempts made
  so far, the limit.
\<close>

record job =
  data :: "real option order"
  attemptsMade :: nat
  opts_attempts :: "nat option"

definition attemptNumber :: "job \<Rightarrow> nat" where
  "attemptNumber j = attemptsMade j + 1"

text \<open>\<^verbatim>\<open>job.opts.attempts || 3\<close>: an absent limit and the limit 0 both give 3.\<close>

definition maxAttempts :: "job \<Rightarrow> nat" where
  "maxAttempts j = (case opts_attempts j of None \<Rightarrow> 3 | Some n \<Rightarrow> if n = 0 then 3 else n)"

text \<open>
  What one attempt takes from outside: the two quotes of the mock router (their prices
  are drawn at random), the generated transaction reference, the version of the database
  module, for each call of \<open>db.orders.update\<close> whether the store raises (with which
  message), and the host's \<open>Number.prototype.toString\<close>. The calls of the store
  inside \<open>try\<close> are counted from 0; the call inside \<open>catch\<close> has its own field.
\<close>

record env =
  raydiumQuote :: quote
  meteoraQuote :: quote
  mockTxHash :: string
  database :: db_module
  tryFault :: "nat \<Rightarrow> string option"
  catchFault :: "string option"
  numberToString :: "rat \<Rightarrow> string"

text \<open>
  The value a successful attempt returns to the queue; \<open>orderWorker\<close> adds the attempt
  number, \<open>processOrder\<close> the status.
\<close>

record result =
  res_orderId :: string
  res_txHash :: string
  res_executedPrice :: number
  res_selectedDex :: string
  res_attempt :: "nat option"
  res_status :: "string option"

text \<open>
  The outcome of an attempt: the error thrown on to the queue or the value returned, the
  calls of \<open>broadcastUpdate\<close> in order, and the store afterwards.
\<close>

record outcome =
  returned :: "string + result"
  broadcasts :: "(string \<times> update_data) list"
  store :: db

text \<open>A call of \<open>db.orders.update\<close> that the environment may make raise.\<close>

definition guarded_update ::
  "db_module \<Rightarrow> string option \<Rightarrow> db \<Rightarrow> string \<Rightarrow> updates \<Rightarrow> string + db" where
  "guarded_update m fault d orderId u =
     (case fault of Some msg \<Rightarrow> Inl msg | None \<Rightarrow> Inr (module_update m d orderId u))"

text \<open>\<^verbatim>\<open>{ status: 'failed', error: error.message }\<close>, written by both workers.\<close>

definition failed_update :: "string \<Rightarrow> updates" where
  "failed_update msg = no_updates\<lparr>upd_status := Some ''failed'', upd_error := Some msg\<rparr>"

subsection \<open>The worker of the queue \<open>orders\<close>\<close>

text \<open>The two broadcasts of the \<open>catch\<close> block of \<open>orderWorker\<close>.\<close>

definition failed_event :: "nat \<Rightarrow> string \<Rightarrow> update_data" where
  "failed_event n msg =
     (event ''failed'' (''Order failed after '' @ show_nat n @ '' attempts: '' @ msg))
       \<lparr>ev_error := Some msg, attempts := Some n\<rparr>"

definition retrying_event :: "(rat \<Rightarrow> string) \<Rightarrow> nat \<Rightarrow> string \<Rightarrow> update_data" where
  "retrying_event toStr n msg =
     (event ''retrying'' (''Attempt '' @ show_nat n @ '' failed, retrying...''))
       \<lparr>ev_error := Some msg, nextRetryIn := Some (calculateBackoffDelay toStr n)\<rparr>"

text \<open>
  The \<open>catch\<close> block of \<open>orderWorker\<close>. On the final attempt it broadcasts \<open>failed\<close>
  and then writes the status; otherwise it broadcasts \<open>retrying\<close> and writes nothing.
  In both cases the error is thrown again; when the write itself raises, that error is
  the one thrown.
\<close>

definition orderWorker_catch ::
  "env \<Rightarrow> job \<Rightarrow> (string \<times> update_data) list \<Rightarrow> db \<Rightarrow> string \<Rightarrow> outcome" where
  "orderWorker_catch e j evs d msg =
     (let ord = data j; n = attemptNumber j
      in if maxAttempts j \<le> n
         then (let evs' = evs @ [(order_id ord, failed_event n msg)]
               in case guarded_update (database e) (catchFault e) d (order_id ord) (failed_update msg) of
                    Inl msg' \<Rightarrow> \<lparr>returned = Inl msg', broadcasts = evs', store = d\<rparr>
                  | Inr d' \<Rightarrow> \<lparr>returned = Inl msg, broadcasts = evs', store = d'\<rparr>)
         else \<lparr>returned = Inl msg,
                broadcasts = evs @ [(order_id ord, retrying_event (numberToString e) n msg)],
                store = d\<rparr>)"

text \<open>
  The \<open>try\<close> block of \<open>orderWorker\<close> broadcasts five stages (\<open>pending\<close>,
  \<open>routing\<close>, \<open>building\<close>, \<open>submitted\<close>, \<open>confirmed\<close>) and then makes the one
  write of the attempt.
\<close>

definition confirmed_event :: "env \<Rightarrow> update_data" where
  "confirmed_event e =
     (event ''confirmed'' ''Swap executed successfully'')
       \<lparr>ev_txHash := Some (mockTxHash e),
        ev_executedPrice := Some (price (selectedQuote (raydiumQuote e) (meteoraQuote e))),
        ev_selectedDex := Some (selectedDex (raydiumQuote e) (meteoraQuote e))\<rparr>"

definition orderWorker_stages :: "env \<Rightarrow> job \<Rightarrow> (string \<times> update_data) list" where
  "orderWorker_stages e j =
     (let ord = data j; sel = selectedDex (raydiumQuote e) (meteoraQuote e)
      in [(order_id ord, (event ''pending'' ''Order received and queued'')
             \<lparr>attempt := Some (attemptNumber j)\<rparr>),
          (order_id ord, event ''routing'' ''Comparing DEX prices...''),
          (order_id ord, (event ''building'' (''Creating swap transaction on '' @ sel))
             \<lparr>ev_selectedDex := Some sel\<rparr>),
          (order_id ord, (event ''submitted'' ''Transaction submitted to blockchain'')
             \<lparr>ev_txHash := Some (mockTxHash e), ev_selectedDex := Some sel\<rparr>),
          (order_id ord, confirmed_event e)])"

definition confirmed_update :: "env \<Rightarrow> updates" where
  "confirmed_update e =
     no_updates\<lparr>upd_status := Some ''confirmed'',
       upd_txHash := Some (mockTxHash e),
       upd_executedPrice := Some (price (selectedQuote (raydiumQuote e) (meteoraQuote e))),
       upd_selectedDex := Some (selectedDex (raydiumQuote e) (meteoraQuote e))\<rparr>"

definition orderWorker :: "env \<Rightarrow> job \<Rightarrow> db \<Rightarrow> outcome" where
  "orderWorker e j d =
     (case guarded_update (database e) (tryFault e 0) d (order_id (data j)) (confirmed_update e) of
        Inl msg \<Rightarrow> orderWorker_catch e j (orderWorker_stages e j) d msg
      | Inr d' \<Rightarrow>
          \<lparr>returned = Inr \<lparr>res_orderId = order_id (data j), res_txHash = mockTxHash e,
               res_executedPrice = price (selectedQuote (raydiumQuote e) (meteoraQuote e)),
               res_selectedDex = selectedDex (raydiumQuote e) (meteoraQuote e),
               res_attempt = Some (attemptNumber j), res_status = None\<rparr>,
           broadcasts = orderWorker_stages e j, store = d'\<rparr>)"

subsection \<open>The worker of the queue \<open>order-processing\<close>\<close>

text \<open>The two broadcasts of the \<open>catch\<close> block of \<open>processOrder\<close>.\<close>

definition failed_eventP :: "nat \<Rightarrow> string \<Rightarrow> update_data" where
  "failed_eventP n msg =
     (event ''failed'' (''Order failed after '' @ show_nat n @ '' attempts''))
       \<lparr>ev_error := Some msg\<rparr>"

definition retrying_eventP :: "(rat \<Rightarrow> string) \<Rightarrow> nat \<Rightarrow> string \<Rightarrow> update_data" where
  "retrying_eventP toStr n msg =
     (let nextDelay = calculateBackoffDelay toStr n
      in (event ''retrying'' (''Retrying in '' @ nextDelay))\<lparr>ev_error := Some msg\<rparr>)"

text \<open>
  The \<open>catch\<close> block of \<open>processOrder\<close>. On the final attempt it writes the status
  first and broadcasts \<open>failed\<close> after it, so a write that raises leaves no broadcast.
\<close>

definition processOrder_catch ::
  "env \<Rightarrow> job \<Rightarrow> (string \<times> update_data) list \<Rightarrow> db \<Rightarrow> string \<Rightarrow> outcome" where
  "processOrder_catch e j evs d msg =
     (let ord = data j; n = attemptNumber j
      in if maxAttempts j \<le> n
         then (case guarded_update (database e) (catchFault e) d (order_id ord) (failed_update msg) of
                 Inl msg' \<Rightarrow> \<lparr>returned = Inl msg', broadcasts = evs, store = d\<rparr>
               | Inr d' \<Rightarrow>
                   \<lparr>returned = Inl msg,
                    broadcasts = evs @ [(order_id ord, failed_eventP n msg)],
                    store = d'\<rparr>)
         else \<lparr>returned = Inl msg,
                broadcasts = evs @ [(order_id ord, retrying_eventP (numberToString e) n msg)],
                store = d\<rparr>)"

text \<open>
  The \<open>try\<close> block of \<open>processOrder\<close> first writes the status \<open>processing\<close>, then
  broadcasts four stages, writes the final record and broadcasts \<open>completed\<close>.
\<close>

definition processing_update :: updates where
  "processing_update = no_updates\<lparr>upd_status := Some ''processing''\<rparr>"

definition processOrder_stages :: "env \<Rightarrow> job \<Rightarrow> (string \<times> update_data) list" where
  "processOrder_stages e j =
     (let ord = data j; sel = selectedDexP (raydiumQuote e) (meteoraQuote e)
      in [(order_id ord, event ''processing'' ''Order is being processed''),
          (order_id ord, (event ''routing'' (''Routing to '' @ sel))
             \<lparr>ev_selectedDex := Some sel\<rparr>),
          (order_id ord, event ''building'' ''Building transaction''),
          (order_id ord, (event ''submitted'' ''Transaction submitted'')
             \<lparr>ev_txHash := Some (mockTxHash e)\<rparr>)])"

definition completed_update :: "env \<Rightarrow> updates" where
  "completed_update e =
     no_updates\<lparr>upd_status := Some ''completed'',
       upd_selectedDex := Some (selectedDexP (raydiumQuote e) (meteoraQuote e)),
       upd_executedPrice := Some (bestPrice (raydiumQuote e) (meteoraQuote e)),
       upd_txHash := Some (mockTxHash e)\<rparr>"

definition completed_event :: "env \<Rightarrow> update_data" where
  "completed_event e =
     (event ''completed'' ''Order executed successfully'')
       \<lparr>ev_selectedDex := Some (selectedDexP (raydiumQuote e) (meteoraQuote e)),
        ev_executedPrice := Some (bestPrice (raydiumQuote e) (meteoraQuote e)),
        ev_txHash := Some (mockTxHash e)\<rparr>"

definition processOrder :: "env \<Rightarrow> job \<Rightarrow> db \<Rightarrow> outcome" where
  "processOrder e j d =
     (case guarded_update (database e) (tryFault e 0) d (order_id (data j)) processing_update of
        Inl msg \<Rightarrow> processOrder_catch e j [] d msg
      | Inr d1 \<Rightarrow>
          (case guarded_update (database e) (tryFault e 1) d1 (order_id (data j)) (completed_update e) of
             Inl msg \<Rightarrow> processOrder_catch e j (processOrder_stages e j) d1 msg
           | Inr d2 \<Rightarrow>
               \<lparr>returned = Inr \<lparr>res_orderId = order_id (data j), res_txHash = mockTxHash e,
                    res_executedPrice = bestPrice (raydiumQuote e) (meteoraQuote e),
                    res_selectedDex = selectedDexP (raydiumQuote e) (meteoraQuote e),
                    res_attempt = None, res_status = Some ''completed''\<rparr>,
                broadcasts = processOrder_stages e j @ [(order_id (data j), completed_event e)],
                store = d2\<rparr>))"

section \<open>Submitting an order\<close>

text \<open>
  The body of \<open>POST /api/orders/execute\<close>. The two token fields are strings or absent,
  as the request type declares them; \<open>amount\<close> and \<open>slippage\<close> are inspected with
  \<open>typeof\<close> by the route, so they are kept as untyped values: absent, \<open>null\<close>, a
  number, or a value of another type.
\<close>

datatype jsval = Undefined | Null | Num number | Other

record orderRequest =
  req_tokenIn :: "string option"
  req_tokenOut :: "string option"
  req_amount :: jsval
  req_slippage :: jsval

text \<open>The status code, the \<open>error\<close> field and the \<open>code\<close> field of a refusal.\<close>

datatype reply = Rejected nat string string | Accepted string

record system =
  orders :: db
  queue :: "job list"

text \<open>\<^verbatim>\<open>/^[A-Z0-9]{2,10}$/\<close>\<close>

definition validTokenPattern :: "string \<Rightarrow> bool" where
  "validTokenPattern s =
     (2 \<le> length s \<and> length s \<le> 10 \<and>
      list_all (\<lambda>c. (65 \<le> (of_char c :: nat) \<and> (of_char c :: nat) \<le> 90) \<or>
                     (48 \<le> (of_char c :: nat) \<and> (of_char c :: nat) \<le> 57)) s)"

text \<open>\<^verbatim>\<open>slippage || 0.05\<close>: zero and NaN are falsy.\<close>

fun slippage_or_default :: "jsval \<Rightarrow> number" where
  "slippage_or_default (Num (Fin x)) = (if x = 0 then Fin 0.05 else Fin x)"
| "slippage_or_default (Num PosInf) = PosInf"
| "slippage_or_default (Num NegInf) = NegInf"
| "slippage_or_default v = Fin 0.05"

text \<open>
  The queue stores the data of a job as JSON text and the worker reads it back:
  \<open>JSON.stringify\<close> writes NaN and the two infinities as \<open>null\<close>.
\<close>

fun json_number :: "number \<Rightarrow> real option" where
  "json_number (Fin x) = Some x"
| "json_number v = None"

definition json_order :: "number order \<Rightarrow> real option order" where
  "json_order ord =
     \<lparr>order_id = order_id ord, tokenIn = tokenIn ord, tokenOut = tokenOut ord,
      amount = json_number (amount ord), slippage = json_number (slippage ord),
      status = status ord\<rparr>"

text \<open>\<open>orderQueue.add(orderId, order)\<close> with the default job options (\<open>attempts: 3\<close>).\<close>

definition orderQueue_add :: "job list \<Rightarrow> number order \<Rightarrow> job list" where
  "orderQueue_add q ord =
     q @ [\<lparr>data = json_order ord, attemptsMade = 0, opts_attempts = Some 3\<rparr>]"

text \<open>
  What one request takes from outside: the generated identifier (\<open>order_\<close>, the clock,
  a random suffix) and, for \<open>db.orders.create\<close> and for \<open>orderQueue.add\<close>, whether
  the call raises (with which message).
\<close>

record route_env =
  generatedId :: string
  createFault :: "string option"
  addFault :: "string option"

text \<open>
  The handler of the route, check by check in the order of the source. The whole handler
  is one \<open>try\<close> block whose \<open>catch\<close> answers 500. Its first statement destructures
  \<open>request.body\<close>, which throws when there is no body or the body is JSON \<open>null\<close>
  (the argument \<open>None\<close>); a body of any other kind has the four fields or lacks them. An
  absent token and the empty string are both falsy (\<^verbatim>\<open>!tokenIn\<close>). The row is
  inserted before the job is added, so a failing \<open>orderQueue.add\<close> leaves the row.
\<close>

fun slippage_type_error :: "jsval \<Rightarrow> bool" where
  "slippage_type_error Undefined = False"
| "slippage_type_error (Num x) = False"
| "slippage_type_error v = True"

fun slippage_range_error :: "jsval \<Rightarrow> bool" where
  "slippage_range_error (Num x) = (num_lt x (Fin 0) \<or> num_gt x (Fin 1))"
| "slippage_range_error v = False"

definition internal_error :: reply where
  "internal_error = Rejected 500 ''INTERNAL_SERVER_ERROR'' ''ERR_500''"

definition execute :: "route_env \<Rightarrow> orderRequest option \<Rightarrow> system \<Rightarrow> reply \<times> system" where
  "execute re body sys =
     (case body of
        None \<Rightarrow> (internal_error, sys)
      | Some req \<Rightarrow>
     (case req_tokenIn req of
        None \<Rightarrow> (Rejected 400 ''MISSING_TOKEN_IN'' ''ERR_001'', sys)
      | Some tIn \<Rightarrow>
     (if tIn = [] then (Rejected 400 ''MISSING_TOKEN_IN'' ''ERR_001'', sys)
      else case req_tokenOut req of
        None \<Rightarrow> (Rejected 400 ''MISSING_TOKEN_OUT'' ''ERR_002'', sys)
      | Some tOut \<Rightarrow>
     (if tOut = [] then (Rejected 400 ''MISSING_TOKEN_OUT'' ''ERR_002'', sys)
      else case req_amount req of
        Undefined \<Rightarrow> (Rejected 400 ''MISSING_AMOUNT'' ''ERR_003'', sys)
      | Null \<Rightarrow> (Rejected 400 ''MISSING_AMOUNT'' ''ERR_003'', sys)
      | Other \<Rightarrow> (Rejected 400 ''INVALID_AMOUNT_TYPE'' ''ERR_004'', sys)
      | Num a \<Rightarrow>
          if num_le a (Fin 0) then (Rejected 400 ''INVALID_AMOUNT'' ''ERR_005'', sys)
          else if slippage_type_error (req_slippage req)
          then (Rejected 400 ''INVALID_SLIPPAGE_TYPE'' ''ERR_006'', sys)
          else if slippage_range_error (req_slippage req)
          then (Rejected 400 ''INVALID_SLIPPAGE_RANGE'' ''ERR_007'', sys)
          else if \<not> validTokenPattern tIn
          then (Rejected 400 ''INVALID_TOKEN_IN'' ''ERR_008'', sys)
          else if \<not> validTokenPattern tOut
          then (Rejected 400 ''INVALID_TOKEN_OUT'' ''ERR_009'', sys)
          else if tIn = tOut
          then (Rejected 400 ''SAME_TOKEN_SWAP'' ''ERR_010'', sys)
          else (let ord = \<lparr>order_id = generatedId re, tokenIn = tIn, tokenOut = tOut,
                             amount = a, slippage = slippage_or_default (req_slippage req),
                             status = ''pending''\<rparr>
                in case (case createFault re of Some msg \<Rightarrow> Inl msg
                         | None \<Rightarrow> db_create (orders sys) ord) of
                     Inl msg \<Rightarrow> (internal_error, sys)
                   | Inr d' \<Rightarrow>
                       (case addFault re of
                          Some msg \<Rightarrow> (internal_error, sys\<lparr>orders := d'\<rparr>)
                        | None \<Rightarrow>
                            (Accepted (generatedId re),
                             \<lparr>orders = d', queue = orderQueue_add (queue sys) ord\<rparr>)))))))"

section \<open>The broadcast hub\<close>

text \<open>
  A socket is a shared mutable object: the registry and the server's client set only hold
  references. Sockets live in a store indexed by number; what \<open>send\<close> was given is kept
  per socket, in order. \<open>readyState\<close> 1 is \<open>OPEN\<close>, 3 is \<open>CLOSED\<close>.
\<close>

record socket =
  readyState :: nat
  sent :: "(string \<times> update_data) list"

text \<open>
  \<open>activeConnections\<close> is the \<open>Map\<close> from order identifier to socket; \<open>wss\<close> is the
  standalone server, undefined until \<open>initializeWebSocket\<close> runs, with its clients.
\<close>

record hub =
  activeConnections :: "string \<rightharpoonup> nat"
  sockets :: "nat \<Rightarrow> socket"
  wss :: "nat list option"
  nextSocket :: nat

definition send :: "nat \<Rightarrow> string \<times> update_data \<Rightarrow> hub \<Rightarrow> hub" where
  "send s m h = h\<lparr>sockets := (sockets h)(s := (sockets h s)\<lparr>sent := sent (sockets h s) @ [m]\<rparr>)\<rparr>"

text \<open>
  The handler of \<open>GET /ws/:orderId\<close>: a new open socket is stored under the identifier
  with \<open>Map.set\<close> and is sent the \<open>connected\<close> message.
\<close>

definition websocketRoutes :: "string \<Rightarrow> hub \<Rightarrow> hub" where
  "websocketRoutes orderId h =
     (let s = nextSocket h;
          h1 = h\<lparr>sockets := (sockets h)(s := \<lparr>readyState = 1, sent = []\<rparr>),
                 nextSocket := Suc s\<rparr>;
          h2 = h1\<lparr>activeConnections := (activeConnections h1)(orderId \<mapsto> s)\<rparr>
      in send s (orderId, event ''connected'' ''Waiting for order processing'') h2)"

text \<open>
  The \<open>close\<close> handler registered for socket \<open>s\<close> under \<open>orderId\<close>: the socket is
  closed and the identifier is deleted from the registry.
\<close>

definition on_close :: "string \<Rightarrow> nat \<Rightarrow> hub \<Rightarrow> hub" where
  "on_close orderId s h =
     h\<lparr>sockets := (sockets h)(s := (sockets h s)\<lparr>readyState := 3\<rparr>),
       activeConnections := (activeConnections h)(orderId := None)\<rparr>"

text \<open>
  The fallback of \<open>broadcastUpdate\<close>:
  \<^verbatim>\<open>wss.clients.forEach((client) => {
    if (client.readyState === 1) { client.send(message); } });\<close>
\<close>

fun forEach_client :: "string \<times> update_data \<Rightarrow> nat list \<Rightarrow> hub \<Rightarrow> hub" where
  "forEach_client m [] h = h"
| "forEach_client m (c # cs) h =
     forEach_client m cs (if readyState (sockets h c) = 1 then send c m h else h)"

definition fallback :: "string \<times> update_data \<Rightarrow> hub \<Rightarrow> hub" where
  "fallback m h = (case wss h of None \<Rightarrow> h | Some clients \<Rightarrow> forEach_client m clients h)"

text \<open>
  \<^verbatim>\<open>const socket = activeConnections.get(orderId);
  if (socket && socket.readyState === 1) { socket.send(...) } else if (wss) { ... }\<close>
  \<open>open_sink\<close> is the condition of the first branch: the socket registered for the
  identifier, when there is one and it is open.
\<close>

definition open_sink :: "hub \<Rightarrow> string \<Rightarrow> nat option" where
  "open_sink h orderId =
     (case activeConnections h orderId of
        Some s \<Rightarrow> if readyState (sockets h s) = 1 then Some s else None
      | None \<Rightarrow> None)"

definition broadcastUpdate :: "string \<Rightarrow> update_data \<Rightarrow> hub \<Rightarrow> hub" where
  "broadcastUpdate orderId d h =
     (case open_sink h orderId of
        Some s \<Rightarrow> send s (orderId, d) h
      | None \<Rightarrow> fallback (orderId, d) h)"

text \<open>A run of publishes, in order.\<close>

fun broadcastAll :: "(string \<times> update_data) list \<Rightarrow> hub \<Rightarrow> hub" where
  "broadcastAll [] h = h"
| "broadcastAll (m # ms) h = broadcastAll ms (broadcastUpdate (fst m) (snd m) h)"

text \<open>The messages about one order among those a socket was sent.\<close>

definition msgs_for ::
  "string \<Rightarrow> (string \<times> update_data) list \<Rightarrow> (string \<times> update_data) list" where
  "msgs_for orderId ms = filter (\<lambda>m. fst m = orderId) ms"

section \<open>Concrete data\<close>

text \<open>
  The scenario of the specification: one order of 10 SOL for USDC, a quote of 204.10 from
  Raydium and one of 206.55 from Meteora.
\<close>

definition raydium_204 :: quote where
  "raydium_204 = \<lparr>dex = Raydium, price = Fin 204.10, fee = Fin 0.003\<rparr>"

definition meteora_206 :: quote where
  "meteora_206 = \<lparr>dex = Meteora, price = Fin 206.55, fee = Fin 0.002\<rparr>"

definition meteora_204 :: quote where
  "meteora_204 = \<lparr>dex = Meteora, price = Fin 204.10, fee = Fin 0.002\<rparr>"

text \<open>The store raises at no call, or at the call numbered \<open>i\<close> only.\<close>

definition no_fault :: "nat \<Rightarrow> string option" where
  "no_fault k = None"

definition fault_at :: "nat \<Rightarrow> string \<Rightarrow> nat \<Rightarrow> string option" where
  "fault_at i msg k = (if k = i then Some msg else None)"

text \<open>
  \<open>Number.prototype.toString\<close> is needed at one argument only, \<open>2^70\<close>, where the host
  prints the shortest digits that read back as that double.
\<close>

definition exponential :: "rat \<Rightarrow> string" where
  "exponential x = ''1.1805916207174113e+21''"

definition example_env :: "(nat \<Rightarrow> string option) \<Rightarrow> env" where
  "example_env f =
     \<lparr>raydiumQuote = raydium_204, meteoraQuote = meteora_206, mockTxHash = ''tx_1'',
      database = ErrorColumn, tryFault = f, catchFault = None,
      numberToString = exponential\<rparr>"

definition example_order :: "real option order" where
  "example_order =
     \<lparr>order_id = ''order_1'', tokenIn = ''SOL'', tokenOut = ''USDC'', amount = Some 10,
      slippage = Some 0.05, status = ''pending''\<rparr>"

definition example_job :: "nat \<Rightarrow> job" where
  "example_job made = \<lparr>data = example_order, attemptsMade = made, opts_attempts = Some 3\<rparr>"

definition example_row :: "string \<Rightarrow> order_row" where
  "example_row st =
     \<lparr>row_id = ''order_1'', token_in = ''SOL'', token_out = ''USDC'', row_amount = Fin 10,
      row_slippage = Fin 0.05, row_status = st, selected_dex = None, tx_hash = None,
      executed_price = None, row_error = None\<rparr>"

definition example_db :: "string \<Rightarrow> db" where
  "example_db st = [''order_1'' \<mapsto> example_row st]"

text \<open>The store is down: the first write of the attempt and the write in \<open>catch\<close> raise.\<close>

definition down_env :: env where
  "down_env = (example_env (fault_at 0 ''down''))\<lparr>catchFault := Some ''down''\<rparr>"

text \<open>
  The store takes every write but the first of the attempt, and the database module is
  the one without the column \<open>error\<close>.
\<close>

definition plain_env :: env where
  "plain_env = (example_env (fault_at 0 ''boom''))\<lparr>database := NoErrorColumn\<rparr>"

text \<open>The same job for another order.\<close>

definition other_job :: job where
  "other_job = \<lparr>data = example_order\<lparr>order_id := ''order_2''\<rparr>, attemptsMade = 0,
     opts_attempts = Some 3\<rparr>"

text \<open>
  Submissions: \<open>{"tokenIn": "SOL", "tokenOut": "USDC", "amount": 1e999}\<close>, which the JSON
  parser reads as \<open>Infinity\<close>, and the same with \<open>"amount": -5\<close>.
\<close>

definition infinite_request :: orderRequest where
  "infinite_request = \<lparr>req_tokenIn = Some ''SOL'', req_tokenOut = Some ''USDC'',
     req_amount = Num PosInf, req_slippage = Undefined\<rparr>"

definition negative_request :: orderRequest where
  "negative_request = \<lparr>req_tokenIn = Some ''SOL'', req_tokenOut = Some ''USDC'',
     req_amount = Num (Fin (- 5)), req_slippage = Undefined\<rparr>"

definition empty_system :: system where
  "empty_system = \<lparr>orders = Map.empty, queue = []\<rparr>"

text \<open>A request during which neither the store nor the queue raises.\<close>

definition route_ok :: "string \<Rightarrow> route_env" where
  "route_ok orderId = \<lparr>generatedId = orderId, createFault = None, addFault = None\<rparr>"

text \<open>
  Hubs: socket 0 watches \<open>order_1\<close>, socket 1 watches \<open>order_2\<close>, sockets 2 and 3
  are clients of the standalone server when it runs; socket 3 is closed, the others open.
\<close>

definition example_sockets :: "nat \<Rightarrow> socket" where
  "example_sockets s = \<lparr>readyState = (if s = 3 then 3 else 1), sent = []\<rparr>"

definition example_hub :: "nat list option \<Rightarrow> hub" where
  "example_hub server =
     \<lparr>activeConnections = [''order_1'' \<mapsto> 0, ''order_2'' \<mapsto> 1],
      sockets = example_sockets, wss = server, nextSocket = 4\<rparr>"

definition routing_event :: update_data where
  "routing_event = event ''routing'' ''Comparing DEX prices...''"

text \<open>
  The client watching \<open>order_1\<close> connects a second time and gets socket 4; then its
  first connection, socket 0, closes, and the handler registered for it runs.
\<close>

definition reconnected_hub :: "nat list option \<Rightarrow> hub" where
  "reconnected_hub server = websocketRoutes ''order_1'' (example_hub server)"

definition stale_closed_hub :: "nat list option \<Rightarrow> hub" where
  "stale_closed_hub server = on_close ''order_1'' 0 (reconnected_hub server)"

section \<open>The choice of venue\<close>

lemma num_gt_irrefl: "\<not> num_gt x x"
  by (cases x) simp_all

lemma num_gt_asym: "num_gt a b \<Longrightarrow> \<not> num_gt b a"
  by (cases a; cases b) simp_all

text \<open>
  C1. Whenever one of the two quotes is priced strictly higher than the other, both
  workers name that quote's venue and take that quote's price; two unequal finite prices
  always have a strictly higher one. With 204.10 at Raydium and 206.55 at Meteora the
  choice is Meteora at 206.55.
\<close>

theorem strictly_higher_price_wins:
  "(num_gt (price m) (price r) \<longrightarrow>
      selectedDex r m = ''meteora'' \<and> selectedQuote r m = m \<and>
      selectedDexP r m = ''METEORA'' \<and> bestPrice r m = price m) \<and>
   (num_gt (price r) (price m) \<longrightarrow>
      selectedDex r m = ''raydium'' \<and> selectedQuote r m = r \<and>
      selectedDexP r m = ''RAYDIUM'' \<and> bestPrice r m = price r) \<and>
   (price r = Fin x \<and> price m = Fin y \<and> x \<noteq> y \<longrightarrow>
      num_gt (price m) (price r) \<or> num_gt (price r) (price m))"
  by (auto simp: selectedDex_def selectedQuote_def selectedDexP_def bestPrice_def
        dest: num_gt_asym)

theorem strictly_higher_price_wins_witness:
  "num_gt (price meteora_206) (price raydium_204) \<and>
   selectedDex raydium_204 meteora_206 = ''meteora'' \<and>
   dex (selectedQuote raydium_204 meteora_206) = Meteora \<and>
   price (selectedQuote raydium_204 meteora_206) = Fin 206.55 \<and>
   selectedDexP raydium_204 meteora_206 = ''METEORA'' \<and>
   bestPrice raydium_204 meteora_206 = Fin 206.55"
  using strictly_higher_price_wins [of meteora_206 raydium_204 "204.10" "206.55"]
  by (simp add: raydium_204_def meteora_206_def)

text \<open>
  C9. When the two prices are equal, both workers choose Raydium, at the shared price.
\<close>

theorem tie_resolves_to_raydium:
  "price r = price m \<Longrightarrow>
     selectedDex r m = ''raydium'' \<and> selectedQuote r m = r \<and>
     selectedDexP r m = ''RAYDIUM'' \<and> bestPrice r m = price r"
  by (simp add: selectedDex_def selectedQuote_def selectedDexP_def bestPrice_def num_gt_irrefl)

theorem tie_resolves_to_raydium_witness:
  "price raydium_204 = price meteora_204 \<and>
   selectedDex raydium_204 meteora_204 = ''raydium'' \<and>
   dex (selectedQuote raydium_204 meteora_204) = Raydium \<and>
   selectedDexP raydium_204 meteora_204 = ''RAYDIUM'' \<and>
   bestPrice raydium_204 meteora_204 = Fin 204.10"
  using tie_resolves_to_raydium [of raydium_204 meteora_204]
  by (simp add: raydium_204_def meteora_204_def)

section \<open>The retry delay\<close>

lemma show_nat_digit: "n < 10 \<Longrightarrow> show_nat n = [''0123456789'' ! n]"
  by (simp add: show_nat.simps)

lemma delay_seconds: "1 \<le> n \<Longrightarrow> delayMs n / 1000 = 2 ^ n"
proof -
  assume "1 \<le> n"
  then obtain m where m: "n = Suc m" by (cases n) auto
  have "int n - 1 = int m" using m by simp
  then have "(2::rat) powi (int n - 1) = 2 ^ m" by (simp add: power_int_def)
  then show ?thesis by (simp add: delayMs_def baseDelay_def m)
qed

lemma pow2_small: "n \<le> 69 \<Longrightarrow> (2::rat) ^ n < 10 ^ 21"
proof -
  assume "n \<le> 69"
  then have "(2::rat) ^ n \<le> 2 ^ 69" by (intro power_increasing) auto
  also have "\<dots> < 10 ^ 21" by simp
  finally show ?thesis .
qed

lemma floor_tenfold: "nat \<lfloor>(2::rat) ^ n * 10 + 1 / 2\<rfloor> = 2 ^ n * 10"
proof -
  have "\<lfloor>(2::rat) ^ n * 10 + 1 / 2\<rfloor> = (2 ^ n * 10 :: int)"
    by (rule floor_unique) simp_all
  then show ?thesis by (simp add: nat_mult_distrib nat_power_eq)
qed

text \<open>Below \<open>10^21\<close> a power of two is printed in full, followed by \<open>.0\<close>.\<close>

lemma toFixed1_pow2:
  assumes "n \<le> 69"
  shows "toFixed1 toStr (2 ^ n) = show_nat (2 ^ n) @ ''.0''"
proof -
  have a: "\<bar>(2::rat) ^ n\<bar> = 2 ^ n" by simp
  have b: "\<not> (10 ^ 21 \<le> (2::rat) ^ n)" using pow2_small[OF assms] by simp
  have c: "\<not> ((2::rat) ^ n < 0)" by simp
  have "toFixed1 toStr (2 ^ n) =
          show_nat (2 ^ n * 10 div 10) @ ''.'' @ show_nat (2 ^ n * 10 mod 10)"
    unfolding toFixed1_def Let_def a
    by (simp only: b c if_False floor_tenfold append_Nil)
  then show ?thesis by (simp add: show_nat_digit)
qed

lemma whole_seconds: "1 \<le> n \<Longrightarrow> 2000 * 2 ^ (n - 1) div 1000 = (2::nat) ^ n"
  by (cases n) simp_all

lemma backoff_pow2:
  "1 \<le> n \<Longrightarrow> n \<le> 69 \<Longrightarrow> calculateBackoffDelay toStr n = show_nat (2 ^ n) @ ''.0s''"
  by (simp add: calculateBackoffDelay_def delay_seconds toFixed1_pow2)

section \<open>One attempt of a worker\<close>

text \<open>The two versions of the database module differ only on an update with an error.\<close>

lemma update_row_plain_no_error:
  "upd_error u = None \<Longrightarrow> update_row_plain u r = update_row u r"
  by (simp add: update_row_plain_def update_row_def)

lemma module_update_no_error:
  "upd_error u = None \<Longrightarrow> module_update m d orderId u = db_update d orderId u"
  by (cases m) (simp_all add: db_update_plain_def db_update_def update_row_plain_no_error
      split: option.splits)

lemma no_error_updates [simp]:
  "upd_error (confirmed_update e) = None"
  "upd_error processing_update = None"
  "upd_error (completed_update e) = None"
  by (simp_all add: confirmed_update_def processing_update_def completed_update_def
      no_updates_def)

lemma module_update_at:
  "d orderId = Some r \<Longrightarrow>
   module_update m d orderId u orderId =
     Some (case m of ErrorColumn \<Rightarrow> update_row u r | NoErrorColumn \<Rightarrow> update_row_plain u r)"
  by (cases m) (simp_all add: db_update_def db_update_plain_def)

lemma module_update_other:
  "orderId' \<noteq> orderId \<Longrightarrow> module_update m d orderId u orderId' = d orderId'"
  by (cases m) (simp_all add: db_update_def db_update_plain_def split: option.splits)

lemma orderWorker_ok:
  "tryFault e 0 = None \<Longrightarrow>
   orderWorker e j d =
     \<lparr>returned = Inr \<lparr>res_orderId = order_id (data j), res_txHash = mockTxHash e,
          res_executedPrice = price (selectedQuote (raydiumQuote e) (meteoraQuote e)),
          res_selectedDex = selectedDex (raydiumQuote e) (meteoraQuote e),
          res_attempt = Some (attemptNumber j), res_status = None\<rparr>,
      broadcasts = orderWorker_stages e j,
      store = db_update d (order_id (data j)) (confirmed_update e)\<rparr>"
  by (simp add: orderWorker_def guarded_update_def module_update_no_error)

lemma orderWorker_raise:
  "tryFault e 0 = Some msg \<Longrightarrow>
   orderWorker e j d = orderWorker_catch e j (orderWorker_stages e j) d msg"
  by (simp add: orderWorker_def guarded_update_def)

lemma orderWorker_catch_final:
  "maxAttempts j \<le> attemptNumber j \<Longrightarrow> catchFault e = None \<Longrightarrow>
   orderWorker_catch e j evs d msg =
     \<lparr>returned = Inl msg,
      broadcasts = evs @ [(order_id (data j), failed_event (attemptNumber j) msg)],
      store = module_update (database e) d (order_id (data j)) (failed_update msg)\<rparr>"
  by (simp add: orderWorker_catch_def guarded_update_def Let_def)

lemma orderWorker_catch_retry:
  "attemptNumber j < maxAttempts j \<Longrightarrow>
   orderWorker_catch e j evs d msg =
     \<lparr>returned = Inl msg,
      broadcasts = evs @ [(order_id (data j),
         retrying_event (numberToString e) (attemptNumber j) msg)],
      store = d\<rparr>"
  by (simp add: orderWorker_catch_def Let_def)

lemma orderWorker_catch_Inl: "returned (orderWorker_catch e j evs d msg) \<noteq> Inr res"
  by (simp add: orderWorker_catch_def Let_def guarded_update_def split: option.splits)

lemma processOrder_catch_Inl: "returned (processOrder_catch e j evs d msg) \<noteq> Inr res"
  by (simp add: processOrder_catch_def Let_def guarded_update_def split: option.splits)

lemma processOrder_ok:
  "tryFault e 0 = None \<Longrightarrow> tryFault e 1 = None \<Longrightarrow>
   processOrder e j d =
     \<lparr>returned = Inr \<lparr>res_orderId = order_id (data j), res_txHash = mockTxHash e,
          res_executedPrice = bestPrice (raydiumQuote e) (meteoraQuote e),
          res_selectedDex = selectedDexP (raydiumQuote e) (meteoraQuote e),
          res_attempt = None, res_status = Some ''completed''\<rparr>,
      broadcasts = processOrder_stages e j @ [(order_id (data j), completed_event e)],
      store = db_update (db_update d (order_id (data j)) processing_update)
                (order_id (data j)) (completed_update e)\<rparr>"
  by (simp add: processOrder_def guarded_update_def module_update_no_error)

lemma processOrder_raise0:
  "tryFault e 0 = Some msg \<Longrightarrow> processOrder e j d = processOrder_catch e j [] d msg"
  by (simp add: processOrder_def guarded_update_def)

lemma processOrder_raise1:
  "tryFault e 0 = None \<Longrightarrow> tryFault e 1 = Some msg \<Longrightarrow>
   processOrder e j d =
     processOrder_catch e j (processOrder_stages e j)
       (db_update d (order_id (data j)) processing_update) msg"
  by (simp add: processOrder_def guarded_update_def module_update_no_error)

lemma processOrder_catch_final:
  "maxAttempts j \<le> attemptNumber j \<Longrightarrow> catchFault e = None \<Longrightarrow>
   processOrder_catch e j evs d msg =
     \<lparr>returned = Inl msg,
      broadcasts = evs @ [(order_id (data j), failed_eventP (attemptNumber j) msg)],
      store = module_update (database e) d (order_id (data j)) (failed_update msg)\<rparr>"
  by (simp add: processOrder_catch_def guarded_update_def Let_def)

lemma processOrder_catch_retry:
  "attemptNumber j < maxAttempts j \<Longrightarrow>
   processOrder_catch e j evs d msg =
     \<lparr>returned = Inl msg,
      broadcasts = evs @ [(order_id (data j),
         retrying_eventP (numberToString e) (attemptNumber j) msg)],
      store = d\<rparr>"
  by (simp add: processOrder_catch_def Let_def)

text \<open>An attempt returns a value exactly when no write inside \<open>try\<close> raises.\<close>

lemma orderWorker_Inr: "returned (orderWorker e j d) = Inr res \<Longrightarrow> tryFault e 0 = None"
  by (cases "tryFault e 0") (auto simp: orderWorker_raise orderWorker_catch_Inl)

lemma processOrder_Inr:
  "returned (processOrder e j d) = Inr res \<Longrightarrow> tryFault e 0 = None \<and> tryFault e 1 = None"
  by (cases "tryFault e 0"; cases "tryFault e 1")
     (auto simp: processOrder_raise0 processOrder_raise1 processOrder_catch_Inl)

lemma orderWorker_Inl:
  "returned (orderWorker e j d) = Inl msg \<Longrightarrow> \<exists>m. tryFault e 0 = Some m"
  by (cases "tryFault e 0") (auto simp: orderWorker_ok)

lemma processOrder_Inl:
  "returned (processOrder e j d) = Inl msg \<Longrightarrow>
     (\<exists>m. tryFault e 0 = Some m) \<or> (tryFault e 0 = None \<and> (\<exists>m. tryFault e 1 = Some m))"
  by (cases "tryFault e 0"; cases "tryFault e 1") (auto simp: processOrder_ok)

lemma db_update_at:
  "d orderId = Some r \<Longrightarrow> db_update d orderId u orderId = Some (update_row u r)"
  by (simp add: db_update_def)

lemma db_update_other:
  "orderId' \<noteq> orderId \<Longrightarrow> db_update d orderId u orderId' = d orderId'"
  by (simp add: db_update_def split: option.splits)

lemmas example_run =
  example_job_def attemptNumber_def maxAttempts_def orderWorker_def processOrder_def
  guarded_update_def example_env_def fault_at_def no_fault_def orderWorker_catch_def
  processOrder_catch_def Let_def example_db_def example_order_def example_row_def
  db_update_def db_update_plain_def update_row_def update_row_plain_def failed_update_def
  no_updates_def

subsection \<open>Settlement\<close>

text \<open>
  C2, as amended. An attempt that returns a value has made one write carrying the final
  status, the chosen venue, the price of that venue's quote and the transaction
  reference, and its last broadcast carries the same four fields. The status is
  \<open>confirmed\<close> in \<open>orderWorker\<close> and \<open>completed\<close> in \<open>processOrder\<close> (whose
  attempt has written \<open>processing\<close> before).
\<close>

theorem settlement_single_update:
  "(returned (orderWorker e j d) = Inr res \<and> d (order_id (data j)) = Some row \<longrightarrow>
      store (orderWorker e j d) = db_update d (order_id (data j)) (confirmed_update e) \<and>
      store (orderWorker e j d) (order_id (data j)) =
        Some (row\<lparr>row_status := ''confirmed'',
                  selected_dex := Some (selectedDex (raydiumQuote e) (meteoraQuote e)),
                  tx_hash := Some (mockTxHash e),
                  executed_price := Some (price (selectedQuote (raydiumQuote e) (meteoraQuote e)))\<rparr>) \<and>
      last (broadcasts (orderWorker e j d)) =
        (order_id (data j),
         (event ''confirmed'' ''Swap executed successfully'')
           \<lparr>ev_txHash := Some (mockTxHash e),
            ev_executedPrice := Some (price (selectedQuote (raydiumQuote e) (meteoraQuote e))),
            ev_selectedDex := Some (selectedDex (raydiumQuote e) (meteoraQuote e))\<rparr>) \<and>
      price (selectedQuote (raydiumQuote e) (meteoraQuote e)) =
        (if selectedDex (raydiumQuote e) (meteoraQuote e) = ''meteora''
         then price (meteoraQuote e) else price (raydiumQuote e))) \<and>
   (returned (processOrder e j d) = Inr resP \<and> d (order_id (data j)) = Some row \<longrightarrow>
      store (processOrder e j d) =
        db_update (db_update d (order_id (data j)) processing_update)
          (order_id (data j)) (completed_update e) \<and>
      store (processOrder e j d) (order_id (data j)) =
        Some (row\<lparr>row_status := ''completed'',
                  selected_dex := Some (selectedDexP (raydiumQuote e) (meteoraQuote e)),
                  tx_hash := Some (mockTxHash e),
                  executed_price := Some (bestPrice (raydiumQuote e) (meteoraQuote e))\<rparr>) \<and>
      last (broadcasts (processOrder e j d)) =
        (order_id (data j),
         (event ''completed'' ''Order executed successfully'')
           \<lparr>ev_selectedDex := Some (selectedDexP (raydiumQuote e) (meteoraQuote e)),
            ev_executedPrice := Some (bestPrice (raydiumQuote e) (meteoraQuote e)),
            ev_txHash := Some (mockTxHash e)\<rparr>) \<and>
      bestPrice (raydiumQuote e) (meteoraQuote e) =
        (if selectedDexP (raydiumQuote e) (meteoraQuote e) = ''METEORA''
         then price (meteoraQuote e) else price (raydiumQuote e)))"
proof (intro conjI impI)
  assume a: "returned (orderWorker e j d) = Inr res \<and> d (order_id (data j)) = Some row"
  then have ok: "tryFault e 0 = None" by (blast dest: orderWorker_Inr)
  show "store (orderWorker e j d) = db_update d (order_id (data j)) (confirmed_update e)"
    by (simp add: orderWorker_ok [OF ok])
  show "store (orderWorker e j d) (order_id (data j)) =
        Some (row\<lparr>row_status := ''confirmed'',
                  selected_dex := Some (selectedDex (raydiumQuote e) (meteoraQuote e)),
                  tx_hash := Some (mockTxHash e),
                  executed_price := Some (price (selectedQuote (raydiumQuote e) (meteoraQuote e)))\<rparr>)"
    using a by (simp add: orderWorker_ok [OF ok] db_update_at update_row_def
        confirmed_update_def no_updates_def)
  show "last (broadcasts (orderWorker e j d)) =
        (order_id (data j),
         (event ''confirmed'' ''Swap executed successfully'')
           \<lparr>ev_txHash := Some (mockTxHash e),
            ev_executedPrice := Some (price (selectedQuote (raydiumQuote e) (meteoraQuote e))),
            ev_selectedDex := Some (selectedDex (raydiumQuote e) (meteoraQuote e))\<rparr>)"
    by (simp add: orderWorker_ok [OF ok] orderWorker_stages_def Let_def confirmed_event_def)
  show "price (selectedQuote (raydiumQuote e) (meteoraQuote e)) =
        (if selectedDex (raydiumQuote e) (meteoraQuote e) = ''meteora''
         then price (meteoraQuote e) else price (raydiumQuote e))"
    by (simp add: selectedQuote_def)
next
  assume a: "returned (processOrder e j d) = Inr resP \<and> d (order_id (data j)) = Some row"
  then have ok: "tryFault e 0 = None" "tryFault e 1 = None"
    by (blast dest: processOrder_Inr)+
  show "store (processOrder e j d) =
        db_update (db_update d (order_id (data j)) processing_update)
          (order_id (data j)) (completed_update e)"
    by (simp add: processOrder_ok [OF ok])
  show "store (processOrder e j d) (order_id (data j)) =
        Some (row\<lparr>row_status := ''completed'',
                  selected_dex := Some (selectedDexP (raydiumQuote e) (meteoraQuote e)),
                  tx_hash := Some (mockTxHash e),
                  executed_price := Some (bestPrice (raydiumQuote e) (meteoraQuote e))\<rparr>)"
    using a by (simp add: processOrder_ok [OF ok] db_update_def update_row_def
        completed_update_def processing_update_def no_updates_def)
  show "last (broadcasts (processOrder e j d)) =
        (order_id (data j),
         (event ''completed'' ''Order executed successfully'')
           \<lparr>ev_selectedDex := Some (selectedDexP (raydiumQuote e) (meteoraQuote e)),
            ev_executedPrice := Some (bestPrice (raydiumQuote e) (meteoraQuote e)),
            ev_txHash := Some (mockTxHash e)\<rparr>)"
    by (simp add: processOrder_ok [OF ok] completed_event_def)
  show "bestPrice (raydiumQuote e) (meteoraQuote e) =
        (if selectedDexP (raydiumQuote e) (meteoraQuote e) = ''METEORA''
         then price (meteoraQuote e) else price (raydiumQuote e))"
    by (simp add: bestPrice_def selectedDexP_def)
qed

theorem settlement_single_update_witness:
  "returned (orderWorker (example_env no_fault) (example_job 0) (example_db ''pending'')) =
     Inr \<lparr>res_orderId = ''order_1'', res_txHash = ''tx_1'', res_executedPrice = Fin 206.55,
          res_selectedDex = ''meteora'', res_attempt = Some 1, res_status = None\<rparr> \<and>
   example_db ''pending'' (order_id (data (example_job 0))) = Some (example_row ''pending'') \<and>
   store (orderWorker (example_env no_fault) (example_job 0) (example_db ''pending'')) ''order_1'' =
     Some ((example_row ''confirmed'')\<lparr>selected_dex := Some ''meteora'', tx_hash := Some ''tx_1'',
        executed_price := Some (Fin 206.55)\<rparr>) \<and>
   returned (processOrder (example_env no_fault) (example_job 0) (example_db ''pending'')) =
     Inr \<lparr>res_orderId = ''order_1'', res_txHash = ''tx_1'', res_executedPrice = Fin 206.55,
          res_selectedDex = ''METEORA'', res_attempt = None, res_status = Some ''completed''\<rparr> \<and>
   store (processOrder (example_env no_fault) (example_job 0) (example_db ''pending'')) ''order_1'' =
     Some ((example_row ''completed'')\<lparr>selected_dex := Some ''METEORA'', tx_hash := Some ''tx_1'',
        executed_price := Some (Fin 206.55)\<rparr>)"
  using settlement_single_update [of "example_env no_fault" "example_job 0" "example_db ''pending''"
      "\<lparr>res_orderId = ''order_1'', res_txHash = ''tx_1'', res_executedPrice = Fin 206.55,
          res_selectedDex = ''meteora'', res_attempt = Some 1, res_status = None\<rparr>"
      "example_row ''pending''"
      "\<lparr>res_orderId = ''order_1'', res_txHash = ''tx_1'', res_executedPrice = Fin 206.55,
          res_selectedDex = ''METEORA'', res_attempt = None, res_status = Some ''completed''\<rparr>"]
  by (simp add: example_run selectedDex_def selectedQuote_def
      selectedDexP_def bestPrice_def raydium_204_def meteora_206_def)

text \<open>
  C2 as stated fails for \<open>processOrder\<close>: its settled order is recorded with the status
  \<open>completed\<close>, not \<open>confirmed\<close>.
\<close>

theorem processOrder_settles_as_completed:
  "returned (processOrder (example_env no_fault) (example_job 0) (example_db ''pending'')) =
     Inr \<lparr>res_orderId = ''order_1'', res_txHash = ''tx_1'', res_executedPrice = Fin 206.55,
          res_selectedDex = ''METEORA'', res_attempt = None, res_status = Some ''completed''\<rparr> \<and>
   map_option row_status
     (store (processOrder (example_env no_fault) (example_job 0) (example_db ''pending'')) ''order_1'')
     = Some ''completed'' \<and>
   map_option row_status
     (store (processOrder (example_env no_fault) (example_job 0) (example_db ''pending'')) ''order_1'')
     \<noteq> Some ''confirmed''"
  by (simp add: example_run selectedDexP_def bestPrice_def
      raydium_204_def meteora_206_def db_update_def update_row_def completed_update_def
      processing_update_def no_updates_def)

subsection \<open>A failed attempt with attempts left\<close>

text \<open>
  C3, as amended. When an attempt fails with attempts left, the last broadcast is
  \<open>retrying\<close> and carries the delay string: as \<open>nextRetryIn\<close> in \<open>orderWorker\<close>, inside
  the message in \<open>processOrder\<close>. \<open>orderWorker\<close> leaves the store as it was.
  \<open>processOrder\<close> leaves it as it was when its first write raised, and otherwise with
  that one write (the status \<open>processing\<close>) and nothing else.
\<close>

theorem failed_attempt_with_attempts_left:
  assumes "attemptNumber j < maxAttempts j"
  shows "(returned (orderWorker e j d) = Inl msg \<longrightarrow>
            last (broadcasts (orderWorker e j d)) =
              (order_id (data j), retrying_event (numberToString e) (attemptNumber j) msg) \<and>
            nextRetryIn (retrying_event (numberToString e) (attemptNumber j) msg) =
              Some (calculateBackoffDelay (numberToString e) (attemptNumber j)) \<and>
            ev_status (retrying_event (numberToString e) (attemptNumber j) msg) = ''retrying'' \<and>
            store (orderWorker e j d) = d) \<and>
         (returned (processOrder e j d) = Inl msg \<longrightarrow>
            last (broadcasts (processOrder e j d)) =
              (order_id (data j), retrying_eventP (numberToString e) (attemptNumber j) msg) \<and>
            message (retrying_eventP (numberToString e) (attemptNumber j) msg) =
              ''Retrying in '' @ calculateBackoffDelay (numberToString e) (attemptNumber j) \<and>
            ev_status (retrying_eventP (numberToString e) (attemptNumber j) msg) = ''retrying'' \<and>
            store (processOrder e j d) =
              (if tryFault e 0 = None
               then db_update d (order_id (data j)) processing_update else d))"
proof (intro conjI impI)
  show "nextRetryIn (retrying_event (numberToString e) (attemptNumber j) msg) =
          Some (calculateBackoffDelay (numberToString e) (attemptNumber j))"
    by (simp add: retrying_event_def event_def)
  show "ev_status (retrying_event (numberToString e) (attemptNumber j) msg) = ''retrying''"
    by (simp add: retrying_event_def event_def)
  show "message (retrying_eventP (numberToString e) (attemptNumber j) msg) =
          ''Retrying in '' @ calculateBackoffDelay (numberToString e) (attemptNumber j)"
    by (simp add: retrying_eventP_def event_def)
  show "ev_status (retrying_eventP (numberToString e) (attemptNumber j) msg) = ''retrying''"
    by (simp add: retrying_eventP_def event_def)
next
  assume a: "returned (orderWorker e j d) = Inl msg"
  then obtain m where m: "tryFault e 0 = Some m" by (blast dest: orderWorker_Inl)
  have run: "orderWorker e j d =
      \<lparr>returned = Inl m,
       broadcasts = orderWorker_stages e j @
         [(order_id (data j), retrying_event (numberToString e) (attemptNumber j) m)],
       store = d\<rparr>"
    by (simp add: orderWorker_raise [OF m] orderWorker_catch_retry [OF assms])
  with a have "m = msg" by simp
  with run show "last (broadcasts (orderWorker e j d)) =
      (order_id (data j), retrying_event (numberToString e) (attemptNumber j) msg)"
    and "store (orderWorker e j d) = d"
    by simp_all
next
  assume a: "returned (processOrder e j d) = Inl msg"
  show "last (broadcasts (processOrder e j d)) =
      (order_id (data j), retrying_eventP (numberToString e) (attemptNumber j) msg)"
    using a processOrder_Inl [OF a]
    by (auto simp: processOrder_raise0 processOrder_raise1 processOrder_catch_retry [OF assms])
  show "store (processOrder e j d) =
      (if tryFault e 0 = None then db_update d (order_id (data j)) processing_update else d)"
    using a processOrder_Inl [OF a]
    by (auto simp: processOrder_raise0 processOrder_raise1 processOrder_catch_retry [OF assms])
qed

theorem failed_attempt_with_attempts_left_witness:
  "attemptNumber (example_job 0) < maxAttempts (example_job 0) \<and>
   returned (orderWorker (example_env (fault_at 0 ''boom'')) (example_job 0) (example_db ''pending''))
     = Inl ''boom'' \<and>
   nextRetryIn (snd (last (broadcasts
     (orderWorker (example_env (fault_at 0 ''boom'')) (example_job 0) (example_db ''pending'')))))
     = Some ''2.0s'' \<and>
   store (orderWorker (example_env (fault_at 0 ''boom'')) (example_job 0) (example_db ''pending''))
     = example_db ''pending'' \<and>
   returned (processOrder (example_env (fault_at 1 ''boom'')) (example_job 0) (example_db ''pending''))
     = Inl ''boom'' \<and>
   message (snd (last (broadcasts
     (processOrder (example_env (fault_at 1 ''boom'')) (example_job 0) (example_db ''pending'')))))
     = ''Retrying in 2.0s''"
  using failed_attempt_with_attempts_left [of "example_job 0" "example_env (fault_at 0 ''boom'')"
      "example_db ''pending''" "''boom''"]
    failed_attempt_with_attempts_left [of "example_job 0" "example_env (fault_at 1 ''boom'')"
      "example_db ''pending''" "''boom''"]
    backoff_pow2 [of 1 exponential]
  by (simp add: example_run show_nat.simps)

text \<open>
  C3 as stated fails for \<open>processOrder\<close>: an attempt that fails at the final write, with
  attempts left, has already turned the persisted status from \<open>pending\<close> into
  \<open>processing\<close>.
\<close>

theorem processOrder_failed_attempt_changes_record:
  "attemptNumber (example_job 0) < maxAttempts (example_job 0) \<and>
   returned (processOrder (example_env (fault_at 1 ''boom'')) (example_job 0) (example_db ''pending''))
     = Inl ''boom'' \<and>
   example_db ''pending'' ''order_1'' = Some (example_row ''pending'') \<and>
   store (processOrder (example_env (fault_at 1 ''boom'')) (example_job 0) (example_db ''pending''))
     ''order_1'' = Some (example_row ''processing'') \<and>
   example_row ''processing'' \<noteq> example_row ''pending''"
  by (simp add: example_run db_update_def update_row_def processing_update_def no_updates_def)

subsection \<open>The final attempt fails\<close>

text \<open>
  C4, as amended. When the final attempt fails and the store takes the write made in
  \<open>catch\<close>, the order's row gets the status \<open>failed\<close>, and the last broadcast is
  \<open>failed\<close> with the error message. The row gets the error message as well when the
  database module is the one with the column \<open>error\<close>; with the other module the row
  changes in its status only. Without a limit in the job options the limit is 3.
\<close>

theorem exhausted_attempts_persist_failed:
  assumes "maxAttempts j \<le> attemptNumber j"
      and "catchFault e = None"
      and "d (order_id (data j)) = Some row"
  shows "(returned (orderWorker e j d) = Inl msg \<longrightarrow>
            (database e = ErrorColumn \<longrightarrow>
               store (orderWorker e j d) (order_id (data j)) =
                 Some (row\<lparr>row_status := ''failed'', row_error := Some msg\<rparr>)) \<and>
            (database e = NoErrorColumn \<longrightarrow>
               store (orderWorker e j d) (order_id (data j)) =
                 Some (row\<lparr>row_status := ''failed''\<rparr>)) \<and>
            last (broadcasts (orderWorker e j d)) =
              (order_id (data j), failed_event (attemptNumber j) msg) \<and>
            ev_status (failed_event (attemptNumber j) msg) = ''failed'' \<and>
            ev_error (failed_event (attemptNumber j) msg) = Some msg) \<and>
         (returned (processOrder e j d) = Inl msg \<longrightarrow>
            (database e = ErrorColumn \<longrightarrow>
               store (processOrder e j d) (order_id (data j)) =
                 Some (row\<lparr>row_status := ''failed'', row_error := Some msg\<rparr>)) \<and>
            (database e = NoErrorColumn \<longrightarrow>
               store (processOrder e j d) (order_id (data j)) =
                 Some (row\<lparr>row_status := ''failed''\<rparr>)) \<and>
            last (broadcasts (processOrder e j d)) =
              (order_id (data j), failed_eventP (attemptNumber j) msg) \<and>
            ev_status (failed_eventP (attemptNumber j) msg) = ''failed'' \<and>
            ev_error (failed_eventP (attemptNumber j) msg) = Some msg) \<and>
         (opts_attempts j = None \<longrightarrow> maxAttempts j = 3)"
proof (intro conjI impI)
  show "ev_status (failed_event (attemptNumber j) msg) = ''failed''"
    and "ev_error (failed_event (attemptNumber j) msg) = Some msg"
    and "ev_status (failed_eventP (attemptNumber j) msg) = ''failed''"
    and "ev_error (failed_eventP (attemptNumber j) msg) = Some msg"
    by (simp_all add: failed_event_def failed_eventP_def event_def)
  show "maxAttempts j = 3" if "opts_attempts j = None"
    using that by (simp add: maxAttempts_def)
next
  assume a: "returned (orderWorker e j d) = Inl msg"
  then obtain m where m: "tryFault e 0 = Some m" by (blast dest: orderWorker_Inl)
  have run: "orderWorker e j d =
      \<lparr>returned = Inl m,
       broadcasts = orderWorker_stages e j @
         [(order_id (data j), failed_event (attemptNumber j) m)],
       store = module_update (database e) d (order_id (data j)) (failed_update m)\<rparr>"
    by (simp add: orderWorker_raise [OF m] orderWorker_catch_final [OF assms(1,2)])
  with a have eq: "m = msg" by simp
  from run eq show "last (broadcasts (orderWorker e j d)) =
      (order_id (data j), failed_event (attemptNumber j) msg)"
    by simp
  show "store (orderWorker e j d) (order_id (data j)) =
          Some (row\<lparr>row_status := ''failed'', row_error := Some msg\<rparr>)"
    if "database e = ErrorColumn"
    using that run eq assms(3)
    by (simp add: db_update_def update_row_def failed_update_def no_updates_def)
  show "store (orderWorker e j d) (order_id (data j)) = Some (row\<lparr>row_status := ''failed''\<rparr>)"
    if "database e = NoErrorColumn"
    using that run eq assms(3)
    by (simp add: db_update_plain_def update_row_plain_def failed_update_def no_updates_def)
next
  assume a: "returned (processOrder e j d) = Inl msg"
  show "last (broadcasts (processOrder e j d)) =
      (order_id (data j), failed_eventP (attemptNumber j) msg)"
    using a processOrder_Inl [OF a]
    by (auto simp: processOrder_raise0 processOrder_raise1
        processOrder_catch_final [OF assms(1,2)])
  show "store (processOrder e j d) (order_id (data j)) =
          Some (row\<lparr>row_status := ''failed'', row_error := Some msg\<rparr>)"
    if "database e = ErrorColumn"
    using that a processOrder_Inl [OF a] assms(3)
    by (auto simp: processOrder_raise0 processOrder_raise1
        processOrder_catch_final [OF assms(1,2)] db_update_def update_row_def
        failed_update_def processing_update_def no_updates_def)
  show "store (processOrder e j d) (order_id (data j)) = Some (row\<lparr>row_status := ''failed''\<rparr>)"
    if "database e = NoErrorColumn"
    using that a processOrder_Inl [OF a] assms(3)
    by (auto simp: processOrder_raise0 processOrder_raise1
        processOrder_catch_final [OF assms(1,2)] db_update_def update_row_def
        db_update_plain_def update_row_plain_def
        failed_update_def processing_update_def no_updates_def)
qed

theorem exhausted_attempts_persist_failed_witness:
  "maxAttempts (example_job 2) \<le> attemptNumber (example_job 2) \<and>
   catchFault (example_env (fault_at 0 ''boom'')) = None \<and> catchFault plain_env = None \<and>
   database (example_env (fault_at 0 ''boom'')) = ErrorColumn \<and>
   database plain_env = NoErrorColumn \<and>
   example_db ''pending'' (order_id (data (example_job 2))) = Some (example_row ''pending'') \<and>
   returned (orderWorker (example_env (fault_at 0 ''boom'')) (example_job 2) (example_db ''pending''))
     = Inl ''boom'' \<and>
   store (orderWorker (example_env (fault_at 0 ''boom'')) (example_job 2) (example_db ''pending''))
     ''order_1'' = Some ((example_row ''failed'')\<lparr>row_error := Some ''boom''\<rparr>) \<and>
   returned (processOrder (example_env (fault_at 0 ''boom'')) (example_job 2) (example_db ''pending''))
     = Inl ''boom'' \<and>
   store (processOrder (example_env (fault_at 0 ''boom'')) (example_job 2) (example_db ''pending''))
     ''order_1'' = Some ((example_row ''failed'')\<lparr>row_error := Some ''boom''\<rparr>) \<and>
   returned (orderWorker plain_env (example_job 2) (example_db ''pending'')) = Inl ''boom'' \<and>
   store (orderWorker plain_env (example_job 2) (example_db ''pending'')) ''order_1''
     = Some (example_row ''failed'') \<and>
   returned (processOrder plain_env (example_job 2) (example_db ''pending'')) = Inl ''boom'' \<and>
   store (processOrder plain_env (example_job 2) (example_db ''pending'')) ''order_1''
     = Some (example_row ''failed'')"
proof -
  let ?e = "example_env (fault_at 0 ''boom'')"
  let ?j = "example_job 2"
  let ?d = "example_db ''pending''"
  have lim: "maxAttempts ?j \<le> attemptNumber ?j"
    by (simp add: example_job_def attemptNumber_def maxAttempts_def)
  have c1: "catchFault ?e = None" and c2: "catchFault plain_env = None"
    and m1: "database ?e = ErrorColumn" and m2: "database plain_env = NoErrorColumn"
    by (simp_all add: example_env_def plain_env_def)
  have oid: "order_id (data ?j) = ''order_1''"
    by (simp add: example_job_def example_order_def)
  have row: "?d (order_id (data ?j)) = Some (example_row ''pending'')"
    by (simp add: oid example_db_def)
  have f1: "tryFault ?e 0 = Some ''boom''" and f2: "tryFault plain_env 0 = Some ''boom''"
    by (simp_all add: example_env_def plain_env_def fault_at_def)
  have r1: "returned (orderWorker ?e ?j ?d) = Inl ''boom''"
    by (simp add: orderWorker_raise [OF f1] orderWorker_catch_final [OF lim c1])
  have r2: "returned (processOrder ?e ?j ?d) = Inl ''boom''"
    by (simp add: processOrder_raise0 [OF f1] processOrder_catch_final [OF lim c1])
  have r3: "returned (orderWorker plain_env ?j ?d) = Inl ''boom''"
    by (simp add: orderWorker_raise [OF f2] orderWorker_catch_final [OF lim c2])
  have r4: "returned (processOrder plain_env ?j ?d) = Inl ''boom''"
    by (simp add: processOrder_raise0 [OF f2] processOrder_catch_final [OF lim c2])
  note t1 = exhausted_attempts_persist_failed [of ?j ?e ?d "example_row ''pending''" "''boom''",
      OF lim c1 row]
  note t2 = exhausted_attempts_persist_failed [of ?j plain_env ?d "example_row ''pending''"
      "''boom''", OF lim c2 row]
  have s1: "store (orderWorker ?e ?j ?d) ''order_1'' =
      Some ((example_row ''pending'')\<lparr>row_status := ''failed'', row_error := Some ''boom''\<rparr>)"
    using t1 r1 m1 oid by metis
  have s2: "store (processOrder ?e ?j ?d) ''order_1'' =
      Some ((example_row ''pending'')\<lparr>row_status := ''failed'', row_error := Some ''boom''\<rparr>)"
    using t1 r2 m1 oid by metis
  have s3: "store (orderWorker plain_env ?j ?d) ''order_1'' =
      Some ((example_row ''pending'')\<lparr>row_status := ''failed''\<rparr>)"
    using t2 r3 m2 oid by metis
  have s4: "store (processOrder plain_env ?j ?d) ''order_1'' =
      Some ((example_row ''pending'')\<lparr>row_status := ''failed''\<rparr>)"
    using t2 r4 m2 oid by metis
  have rows: "(example_row ''pending'')\<lparr>row_status := ''failed''\<rparr> = example_row ''failed''"
    by (simp add: example_row_def)
  show ?thesis
    using lim c1 c2 m1 m2 row r1 r2 r3 r4 s1 s2 s3 s4 by (simp add: rows [symmetric])
qed

text \<open>
  C4 as stated fails in two ways. When the store is down, the final attempt of
  \<open>processOrder\<close> fails, the write in \<open>catch\<close> raises as well, and then nothing is
  persisted and nothing is broadcast; \<open>orderWorker\<close> persists nothing either. And with
  the database module that has no column \<open>error\<close>, the store takes the write of
  \<open>failed\<close> but the record holds no error message afterwards.
\<close>

theorem store_down_nothing_persisted:
  "maxAttempts (example_job 2) \<le> attemptNumber (example_job 2) \<and>
   returned (processOrder down_env (example_job 2) (example_db ''pending'')) = Inl ''down'' \<and>
   store (processOrder down_env (example_job 2) (example_db ''pending'')) = example_db ''pending'' \<and>
   broadcasts (processOrder down_env (example_job 2) (example_db ''pending'')) = [] \<and>
   returned (orderWorker down_env (example_job 2) (example_db ''pending'')) = Inl ''down'' \<and>
   store (orderWorker down_env (example_job 2) (example_db ''pending'')) = example_db ''pending'' \<and>
   map_option row_status (example_db ''pending'' ''order_1'') = Some ''pending'' \<and>
   returned (orderWorker plain_env (example_job 2) (example_db ''pending'')) = Inl ''boom'' \<and>
   map_option row_status
     (store (orderWorker plain_env (example_job 2) (example_db ''pending'')) ''order_1'')
     = Some ''failed'' \<and>
   map_option row_error
     (store (orderWorker plain_env (example_job 2) (example_db ''pending'')) ''order_1'')
     = Some None \<and>
   returned (processOrder plain_env (example_job 2) (example_db ''pending'')) = Inl ''boom'' \<and>
   map_option row_error
     (store (processOrder plain_env (example_job 2) (example_db ''pending'')) ''order_1'')
     = Some None"
  by (simp add: example_run down_env_def plain_env_def)

subsection \<open>The delay string of a retry\<close>

text \<open>
  C5, as amended. For an attempt number \<open>n\<close> from 1 to 69 the delay is
  \<open>2000 * 2^(n-1)\<close> milliseconds and the string is that many whole seconds written in
  full with \<open>.0s\<close> after them; it is the \<open>nextRetryIn\<close> of the \<open>retrying\<close> broadcast
  of \<open>orderWorker\<close> and the tail of the message of that of \<open>processOrder\<close>.
\<close>

theorem retry_delay_string:
  assumes "1 \<le> n" and "n \<le> 69"
  shows "calculateBackoffDelay toStr n = show_nat (2000 * 2 ^ (n - 1) div 1000) @ ''.0s'' \<and>
         delayMs n = 2000 * 2 ^ (n - 1) \<and>
         (attemptNumber j = n \<and> n < maxAttempts j \<and> returned (orderWorker e j d) = Inl msg \<longrightarrow>
            ev_status (snd (last (broadcasts (orderWorker e j d)))) = ''retrying'' \<and>
            nextRetryIn (snd (last (broadcasts (orderWorker e j d)))) =
              Some (show_nat (2000 * 2 ^ (n - 1) div 1000) @ ''.0s'')) \<and>
         (attemptNumber j = n \<and> n < maxAttempts j \<and> returned (processOrder e j d) = Inl msg \<longrightarrow>
            ev_status (snd (last (broadcasts (processOrder e j d)))) = ''retrying'' \<and>
            message (snd (last (broadcasts (processOrder e j d)))) =
              ''Retrying in '' @ show_nat (2000 * 2 ^ (n - 1) div 1000) @ ''.0s'')"
proof (intro conjI impI)
  have str: "calculateBackoffDelay f n = show_nat (2000 * 2 ^ (n - 1) div 1000) @ ''.0s''" for f
    using assms by (simp only: backoff_pow2 whole_seconds)
  show "calculateBackoffDelay toStr n = show_nat (2000 * 2 ^ (n - 1) div 1000) @ ''.0s''"
    by (rule str)
  show "delayMs n = 2000 * 2 ^ (n - 1)"
    using assms by (cases n) (simp_all add: delayMs_def baseDelay_def power_int_def)
  {
    assume a: "attemptNumber j = n \<and> n < maxAttempts j \<and> returned (orderWorker e j d) = Inl msg"
    then obtain m where m: "tryFault e 0 = Some m" by (blast dest: orderWorker_Inl)
    from a have lt: "attemptNumber j < maxAttempts j" by simp
    have eq: "snd (last (broadcasts (orderWorker e j d))) = retrying_event (numberToString e) n m"
      using a by (simp add: orderWorker_raise [OF m] orderWorker_catch_retry [OF lt])
    show "ev_status (snd (last (broadcasts (orderWorker e j d)))) = ''retrying''"
      by (simp add: eq retrying_event_def event_def)
    show "nextRetryIn (snd (last (broadcasts (orderWorker e j d)))) =
              Some (show_nat (2000 * 2 ^ (n - 1) div 1000) @ ''.0s'')"
      by (simp add: eq retrying_event_def event_def str)
  }
  {
    assume a: "attemptNumber j = n \<and> n < maxAttempts j \<and> returned (processOrder e j d) = Inl msg"
    from a have lt: "attemptNumber j < maxAttempts j" by simp
    from a have "(\<exists>m. tryFault e 0 = Some m) \<or> (tryFault e 0 = None \<and> (\<exists>m. tryFault e 1 = Some m))"
      by (blast dest: processOrder_Inl)
    then obtain m where eq:
      "snd (last (broadcasts (processOrder e j d))) = retrying_eventP (numberToString e) n m"
      using a by (auto simp: processOrder_raise0 processOrder_raise1 processOrder_catch_retry [OF lt])
    show "ev_status (snd (last (broadcasts (processOrder e j d)))) = ''retrying''"
      by (simp add: eq retrying_eventP_def event_def)
    show "message (snd (last (broadcasts (processOrder e j d)))) =
              ''Retrying in '' @ show_nat (2000 * 2 ^ (n - 1) div 1000) @ ''.0s''"
      by (simp add: eq retrying_eventP_def event_def str)
  }
qed

theorem retry_delay_string_witness:
  "(1::nat) \<le> 2 \<and> (2::nat) \<le> 69 \<and>
   calculateBackoffDelay exponential 1 = ''2.0s'' \<and>
   calculateBackoffDelay exponential 2 = ''4.0s'' \<and>
   delayMs 2 = 4000 \<and>
   attemptNumber (example_job 1) = 2 \<and> 2 < maxAttempts (example_job 1) \<and>
   returned (orderWorker (example_env (fault_at 0 ''boom'')) (example_job 1) (example_db ''pending''))
     = Inl ''boom'' \<and>
   nextRetryIn (snd (last (broadcasts
     (orderWorker (example_env (fault_at 0 ''boom'')) (example_job 1) (example_db ''pending'')))))
     = Some ''4.0s'' \<and>
   returned (processOrder (example_env (fault_at 1 ''boom'')) (example_job 1) (example_db ''pending''))
     = Inl ''boom'' \<and>
   message (snd (last (broadcasts
     (processOrder (example_env (fault_at 1 ''boom'')) (example_job 1) (example_db ''pending'')))))
     = ''Retrying in 4.0s''"
  using retry_delay_string [of 2 exponential "example_job 1" "example_env (fault_at 0 ''boom'')"
      "example_db ''pending''" "''boom''"]
    retry_delay_string [of 2 exponential "example_job 1" "example_env (fault_at 1 ''boom'')"
      "example_db ''pending''" "''boom''"]
    retry_delay_string [of 1 exponential "example_job 0" "example_env (fault_at 0 ''boom'')"
      "example_db ''pending''" "''boom''"]
  by (simp add: example_run show_nat.simps)

text \<open>
  C5 as stated fails at attempt 70: the quotient \<open>2^70\<close> has reached \<open>10^21\<close>, where
  \<open>toFixed\<close> prints exponential notation instead of one decimal place.
\<close>

theorem retry_delay_not_decimal_at_70:
  "calculateBackoffDelay exponential 70 = ''1.1805916207174113e+21s'' \<and>
   calculateBackoffDelay exponential 70 \<noteq> show_nat (2000 * 2 ^ (70 - 1) div 1000) @ ''.0s''"
  by (simp add: calculateBackoffDelay_def delayMs_def baseDelay_def toFixed1_def power_int_def
      exponential_def)

section \<open>Records in a terminal state\<close>

lemma orderWorker_store_other:
  "orderId \<noteq> order_id (data j) \<Longrightarrow> store (orderWorker e j d) orderId = d orderId"
  by (simp add: orderWorker_def orderWorker_catch_def guarded_update_def module_update_other
      Let_def split: option.splits)

lemma processOrder_store_other:
  "orderId \<noteq> order_id (data j) \<Longrightarrow> store (processOrder e j d) orderId = d orderId"
  by (simp add: processOrder_def processOrder_catch_def guarded_update_def module_update_other
      Let_def split: option.splits)

lemma db_update_plain_at:
  "d orderId = Some r \<Longrightarrow> db_update_plain d orderId u orderId = Some (update_row_plain u r)"
  by (simp add: db_update_plain_def)

lemma db_update_plain_other:
  "orderId' \<noteq> orderId \<Longrightarrow> db_update_plain d orderId u orderId' = d orderId'"
  by (simp add: db_update_plain_def split: option.splits)

lemma execute_keeps_rows:
  "d orderId = Some row \<Longrightarrow>
     orders (snd (execute re body \<lparr>orders = d, queue = q\<rparr>)) orderId = Some row"
  by (auto simp: execute_def db_create_def Let_def split: option.splits jsval.splits)

text \<open>
  C6, as amended. A stored record is left as it is by an attempt of either worker for
  another order identifier, by an update for another identifier and by any submission.
  An update for the record's own identifier has no guard on the current status: it
  replaces exactly the fields it supplies and keeps the others. This holds with either
  version of the database module; the version without the column \<open>error\<close> never
  changes the error of a record.
\<close>

theorem terminal_record_untouched_by_others:
  assumes "d orderId = Some row"
  shows "(orderId \<noteq> order_id (data j) \<longrightarrow>
            store (orderWorker e j d) orderId = Some row \<and>
            store (processOrder e j d) orderId = Some row) \<and>
         (orderId \<noteq> otherId \<longrightarrow> db_update d otherId u orderId = Some row) \<and>
         orders (snd (execute re body \<lparr>orders = d, queue = q\<rparr>)) orderId = Some row \<and>
         db_update d orderId u orderId = Some (update_row u row) \<and>
         (upd_status u = None \<longrightarrow> row_status (update_row u row) = row_status row) \<and>
         (upd_selectedDex u = None \<longrightarrow> selected_dex (update_row u row) = selected_dex row) \<and>
         (upd_txHash u = None \<longrightarrow> tx_hash (update_row u row) = tx_hash row) \<and>
         (upd_executedPrice u = None \<longrightarrow> executed_price (update_row u row) = executed_price row) \<and>
         (upd_error u = None \<longrightarrow> row_error (update_row u row) = row_error row) \<and>
         (orderId \<noteq> otherId \<longrightarrow> db_update_plain d otherId u orderId = Some row) \<and>
         db_update_plain d orderId u orderId = Some (update_row_plain u row) \<and>
         (upd_status u = None \<longrightarrow> row_status (update_row_plain u row) = row_status row) \<and>
         (upd_selectedDex u = None \<longrightarrow>
            selected_dex (update_row_plain u row) = selected_dex row) \<and>
         (upd_txHash u = None \<longrightarrow> tx_hash (update_row_plain u row) = tx_hash row) \<and>
         (upd_executedPrice u = None \<longrightarrow>
            executed_price (update_row_plain u row) = executed_price row) \<and>
         row_error (update_row_plain u row) = row_error row"
  using assms
  by (simp add: orderWorker_store_other processOrder_store_other db_update_other db_update_at
      db_update_plain_other db_update_plain_at execute_keeps_rows update_row_def
      update_row_plain_def)

theorem terminal_record_untouched_by_others_witness:
  "example_db ''failed'' ''order_1'' = Some (example_row ''failed'') \<and>
   ''order_1'' \<noteq> order_id (data other_job) \<and>
   store (orderWorker (example_env no_fault) other_job (example_db ''failed'')) ''order_1''
     = Some (example_row ''failed'') \<and>
   store (processOrder (example_env no_fault) other_job (example_db ''failed'')) ''order_1''
     = Some (example_row ''failed'') \<and>
   orders (snd (execute (route_ok ''order_1'') (Some infinite_request)
     \<lparr>orders = example_db ''failed'', queue = []\<rparr>)) ''order_1'' = Some (example_row ''failed'') \<and>
   upd_txHash (failed_update ''late'') = None \<and>
   tx_hash (update_row (failed_update ''late'') (example_row ''failed'')) = None \<and>
   tx_hash (update_row_plain (failed_update ''late'') (example_row ''failed'')) = None"
  using terminal_record_untouched_by_others [of "example_db ''failed''" "''order_1''"
      "example_row ''failed''" other_job "example_env no_fault" "''order_2''"
      "failed_update ''late''" "route_ok ''order_1''" "Some infinite_request" "[]"]
  by (simp add: example_db_def other_job_def example_order_def failed_update_def no_updates_def
      example_row_def)

text \<open>
  C6 as stated fails: when the job of an order recorded as \<open>failed\<close> is delivered again,
  \<open>processOrder\<close> records it as \<open>completed\<close> and \<open>orderWorker\<close> as \<open>confirmed\<close>.
\<close>

theorem reprocessing_overwrites_terminal_status:
  "map_option row_status (example_db ''failed'' ''order_1'') = Some ''failed'' \<and>
   order_id (data (example_job 0)) = ''order_1'' \<and>
   map_option row_status
     (store (processOrder (example_env no_fault) (example_job 0) (example_db ''failed'')) ''order_1'')
     = Some ''completed'' \<and>
   map_option row_status
     (store (orderWorker (example_env no_fault) (example_job 0) (example_db ''failed'')) ''order_1'')
     = Some ''confirmed''"
  by (simp add: example_run completed_update_def confirmed_update_def processing_update_def)

section \<open>The amount of a submission\<close>

lemma execute_queue_unchanged:
  "fst (execute re body sys) \<noteq> Accepted (generatedId re) \<Longrightarrow>
     queue (snd (execute re body sys)) = queue sys"
  by (auto simp: execute_def internal_error_def Let_def
      split: option.splits jsval.splits sum.splits if_splits)

lemma execute_accepts_generated:
  "fst (execute re body sys) = Accepted accepted \<Longrightarrow> accepted = generatedId re"
  by (auto simp: execute_def internal_error_def Let_def
      split: option.splits jsval.splits sum.splits if_splits)

text \<open>
  C7, as amended. A submission with a body whose amount is absent, \<open>null\<close>, not a
  number, a finite number that is not positive, or \<open>-Infinity\<close> is answered with status
  400 and leaves the store and the queue as they were. A submission without a body is
  answered with status 500 and leaves them as they were, too. An accepted submission has
  a body and carries a number for which \<open>amount <= 0\<close> is false: a positive finite
  number, \<open>+Infinity\<close> or NaN; and the route puts a job on the queue for such a
  submission only.
\<close>

theorem non_positive_amount_rejected:
  "(req_amount req = Undefined \<or> req_amount req = Null \<or> req_amount req = Other \<or>
    req_amount req = Num NegInf \<or> (\<exists>x. req_amount req = Num (Fin x) \<and> x \<le> 0) \<longrightarrow>
      (\<exists>err c. execute re (Some req) sys = (Rejected 400 err c, sys))) \<and>
   execute re None sys = (Rejected 500 ''INTERNAL_SERVER_ERROR'' ''ERR_500'', sys) \<and>
   (fst (execute re body sys) = Accepted accepted \<or>
    queue (snd (execute re body sys)) \<noteq> queue sys \<longrightarrow>
      (\<exists>r. body = Some r \<and>
         (req_amount r = Num PosInf \<or> req_amount r = Num NaN \<or>
          (\<exists>x. req_amount r = Num (Fin x) \<and> 0 < x))))"
proof (intro conjI impI)
  assume "req_amount req = Undefined \<or> req_amount req = Null \<or> req_amount req = Other \<or>
    req_amount req = Num NegInf \<or> (\<exists>x. req_amount req = Num (Fin x) \<and> x \<le> 0)"
  then show "\<exists>err c. execute re (Some req) sys = (Rejected 400 err c, sys)"
    by (auto simp: execute_def split: option.splits)
next
  show "execute re None sys = (Rejected 500 ''INTERNAL_SERVER_ERROR'' ''ERR_500'', sys)"
    by (simp add: execute_def internal_error_def)
next
  assume "fst (execute re body sys) = Accepted accepted \<or>
    queue (snd (execute re body sys)) \<noteq> queue sys"
  then have acc: "fst (execute re body sys) = Accepted (generatedId re)"
    using execute_queue_unchanged [of re body sys] execute_accepts_generated [of re body sys]
    by blast
  then obtain r where body: "body = Some r"
    by (cases body) (auto simp: execute_def internal_error_def)
  have "req_amount r = Num PosInf \<or> req_amount r = Num NaN \<or>
      (\<exists>x. req_amount r = Num (Fin x) \<and> 0 < x)"
  proof (cases "req_amount r")
    case (Num a)
    with acc body have "\<not> num_le a (Fin 0)"
      by (auto simp: execute_def internal_error_def split: option.splits if_splits)
    with Num show ?thesis by (cases a) auto
  qed (use acc body in
        \<open>auto simp: execute_def internal_error_def split: option.splits if_splits\<close>)
  with body show "\<exists>r. body = Some r \<and>
         (req_amount r = Num PosInf \<or> req_amount r = Num NaN \<or>
          (\<exists>x. req_amount r = Num (Fin x) \<and> 0 < x))"
    by blast
qed

theorem non_positive_amount_rejected_witness:
  "(\<exists>x. req_amount negative_request = Num (Fin x) \<and> x \<le> 0) \<and>
   execute (route_ok ''order_1'') (Some negative_request) empty_system =
     (Rejected 400 ''INVALID_AMOUNT'' ''ERR_005'', empty_system) \<and>
   execute (route_ok ''order_1'') None empty_system =
     (Rejected 500 ''INTERNAL_SERVER_ERROR'' ''ERR_500'', empty_system) \<and>
   fst (execute (route_ok ''order_1'') (Some infinite_request) empty_system)
     = Accepted ''order_1'' \<and>
   queue (snd (execute (route_ok ''order_1'') (Some infinite_request) empty_system))
     \<noteq> queue empty_system \<and>
   req_amount infinite_request = Num PosInf"
  using non_positive_amount_rejected [of negative_request "route_ok ''order_1''" empty_system
      "Some negative_request" "''order_1''"]
    non_positive_amount_rejected [of infinite_request "route_ok ''order_1''" empty_system
      "Some infinite_request" "''order_1''"]
  by (simp add: execute_def negative_request_def infinite_request_def empty_system_def
      validTokenPattern_def db_create_def route_ok_def orderQueue_add_def)

text \<open>
  C7 as stated fails: the amount \<open>+Infinity\<close> passes every check. The submission is
  accepted, the row is stored with that amount, and a job for the order is put on the
  queue, where the amount reads back as \<open>null\<close>.
\<close>

theorem infinite_amount_is_enqueued:
  "fst (execute (route_ok ''order_1'') (Some infinite_request) empty_system)
     = Accepted ''order_1'' \<and>
   map order_id (map data (queue (snd
     (execute (route_ok ''order_1'') (Some infinite_request) empty_system)))) = [''order_1''] \<and>
   map amount (map data (queue (snd
     (execute (route_ok ''order_1'') (Some infinite_request) empty_system)))) = [None] \<and>
   map_option row_amount (orders (snd
     (execute (route_ok ''order_1'') (Some infinite_request) empty_system)) ''order_1'')
     = Some PosInf"
  by (simp add: execute_def infinite_request_def empty_system_def validTokenPattern_def
      db_create_def orderQueue_add_def json_order_def route_ok_def Let_def)

section \<open>Publishing and subscribing\<close>

lemma msgs_for_simps [simp]:
  "msgs_for orderId [] = []"
  "msgs_for orderId (m # ms) =
     (if fst m = orderId then m # msgs_for orderId ms else msgs_for orderId ms)"
  "msgs_for orderId (xs @ ys) = msgs_for orderId xs @ msgs_for orderId ys"
  by (simp_all add: msgs_for_def)

text \<open>A publish changes what sockets were sent and nothing else.\<close>

lemma send_frame [simp]:
  "activeConnections (send s m h) = activeConnections h"
  "wss (send s m h) = wss h"
  "nextSocket (send s m h) = nextSocket h"
  "readyState (sockets (send s m h) c) = readyState (sockets h c)"
  by (simp_all add: send_def)

lemma send_sent:
  "sent (sockets (send s m h) c) = (if c = s then sent (sockets h c) @ [m] else sent (sockets h c))"
  by (simp add: send_def)

lemma forEach_client_frame [simp]:
  "activeConnections (forEach_client m cs h) = activeConnections h"
  "wss (forEach_client m cs h) = wss h"
  "nextSocket (forEach_client m cs h) = nextSocket h"
  "readyState (sockets (forEach_client m cs h) c) = readyState (sockets h c)"
  by (induction cs arbitrary: h) simp_all

lemma forEach_client_sent:
  "distinct cs \<Longrightarrow>
   sent (sockets (forEach_client m cs h) c) =
     (if c \<in> set cs \<and> readyState (sockets h c) = 1
      then sent (sockets h c) @ [m] else sent (sockets h c))"
proof (induction cs arbitrary: h)
  case Nil
  then show ?case by simp
next
  case (Cons a cs)
  then show ?case by (auto simp: send_sent)
qed

lemma forEach_client_msgs_other:
  "fst m \<noteq> orderId \<Longrightarrow>
   msgs_for orderId (sent (sockets (forEach_client m cs h) c)) =
   msgs_for orderId (sent (sockets h c))"
  by (induction cs arbitrary: h) (simp_all add: send_sent)

lemma broadcastUpdate_frame [simp]:
  "activeConnections (broadcastUpdate orderId d h) = activeConnections h"
  "wss (broadcastUpdate orderId d h) = wss h"
  "nextSocket (broadcastUpdate orderId d h) = nextSocket h"
  "readyState (sockets (broadcastUpdate orderId d h) c) = readyState (sockets h c)"
  by (simp_all add: broadcastUpdate_def fallback_def split: option.splits)

lemma broadcastUpdate_registered:
  "activeConnections h orderId = Some s \<Longrightarrow> readyState (sockets h s) = 1 \<Longrightarrow>
   broadcastUpdate orderId d h = send s (orderId, d) h"
  by (simp add: broadcastUpdate_def open_sink_def)

lemma broadcastUpdate_msgs_other:
  "other \<noteq> orderId \<Longrightarrow>
   msgs_for orderId (sent (sockets (broadcastUpdate other d h) c)) =
   msgs_for orderId (sent (sockets h c))"
  by (simp add: broadcastUpdate_def fallback_def forEach_client_msgs_other send_sent
      split: option.splits)

text \<open>
  C8. A publish for an identifier whose registered socket is open appends the event to
  what that socket was sent and leaves every other socket as it was. Without an open
  registered socket, the hub is unchanged when the standalone server is not running, and
  otherwise the event is appended once for each open client of that server and for no
  other socket. The registry is the same afterwards; the function has no failing branch.
\<close>

theorem publish_delivery:
  "(open_sink h orderId = Some s \<longrightarrow>
      activeConnections h orderId = Some s \<and>
      sent (sockets (broadcastUpdate orderId d h) s) = sent (sockets h s) @ [(orderId, d)] \<and>
      (\<forall>c. c \<noteq> s \<longrightarrow> sent (sockets (broadcastUpdate orderId d h) c) = sent (sockets h c))) \<and>
   (open_sink h orderId = None \<and> wss h = None \<longrightarrow> broadcastUpdate orderId d h = h) \<and>
   (open_sink h orderId = None \<and> wss h = Some clients \<and> distinct clients \<longrightarrow>
      (\<forall>c. sent (sockets (broadcastUpdate orderId d h) c) =
         (if c \<in> set clients \<and> readyState (sockets h c) = 1
          then sent (sockets h c) @ [(orderId, d)] else sent (sockets h c)))) \<and>
   activeConnections (broadcastUpdate orderId d h) = activeConnections h"
  by (auto simp: broadcastUpdate_def open_sink_def fallback_def send_sent forEach_client_sent
      split: option.splits if_splits)

theorem publish_delivery_witness:
  "open_sink (example_hub None) ''order_1'' = Some 0 \<and>
   sent (sockets (broadcastUpdate ''order_1'' routing_event (example_hub None)) 0)
     = [(''order_1'', routing_event)] \<and>
   sent (sockets (broadcastUpdate ''order_1'' routing_event (example_hub None)) 1) = [] \<and>
   open_sink (example_hub None) ''order_9'' = None \<and> wss (example_hub None) = None \<and>
   broadcastUpdate ''order_9'' routing_event (example_hub None) = example_hub None \<and>
   open_sink (example_hub (Some [2, 3])) ''order_9'' = None \<and>
   wss (example_hub (Some [2, 3])) = Some [2, 3] \<and> distinct [2, 3 :: nat] \<and>
   sent (sockets (broadcastUpdate ''order_9'' routing_event (example_hub (Some [2, 3]))) 2)
     = [(''order_9'', routing_event)] \<and>
   sent (sockets (broadcastUpdate ''order_9'' routing_event (example_hub (Some [2, 3]))) 3) = [] \<and>
   sent (sockets (broadcastUpdate ''order_9'' routing_event (example_hub (Some [2, 3]))) 0) = []"
  using publish_delivery [of "example_hub None" "''order_1''" 0 routing_event "[]"]
    publish_delivery [of "example_hub None" "''order_9''" 0 routing_event "[]"]
    publish_delivery [of "example_hub (Some [2, 3])" "''order_9''" 0 routing_event "[2, 3]"]
  by (simp add: example_hub_def example_sockets_def open_sink_def)

subsection \<open>A second subscription for the same order\<close>

lemma broadcastAll_frame [simp]:
  "activeConnections (broadcastAll ms h) = activeConnections h"
  "readyState (sockets (broadcastAll ms h) c) = readyState (sockets h c)"
  by (induction ms arbitrary: h) simp_all

text \<open>
  While an open socket is registered for an identifier, a run of publishes gives that
  socket every message of the run about the identifier, in order, and gives no other
  socket any message about it.
\<close>

lemma broadcastAll_msgs:
  assumes "activeConnections h orderId = Some s" and "readyState (sockets h s) = 1"
  shows "msgs_for orderId (sent (sockets (broadcastAll ms h) c)) =
           (if c = s then msgs_for orderId (sent (sockets h c)) @ msgs_for orderId ms
            else msgs_for orderId (sent (sockets h c)))"
  using assms
proof (induction ms arbitrary: h)
  case Nil
  then show ?case by simp
next
  case (Cons m ms)
  obtain a d where m: "m = (a, d)" by (cases m)
  let ?h = "broadcastUpdate a d h"
  have reg: "activeConnections ?h orderId = Some s" "readyState (sockets ?h s) = 1"
    using Cons.prems by simp_all
  have step: "msgs_for orderId (sent (sockets ?h c)) =
      (if c = s \<and> a = orderId then msgs_for orderId (sent (sockets h c)) @ [(a, d)]
       else msgs_for orderId (sent (sockets h c)))"
  proof (cases "a = orderId")
    case True
    then have "?h = send s (a, d) h"
      using broadcastUpdate_registered [OF Cons.prems, of d] by simp
    then show ?thesis using True by (simp add: send_sent)
  next
    case False
    then show ?thesis by (simp add: broadcastUpdate_msgs_other)
  qed
  have unfold: "broadcastAll (m # ms) h = broadcastAll ms ?h" by (simp add: m)
  have tail: "msgs_for orderId (m # ms) =
      (if a = orderId then (a, d) # msgs_for orderId ms else msgs_for orderId ms)"
    by (simp add: m)
  show ?case
    unfolding unfold tail Cons.IH [OF reg] step by (cases "c = s"; cases "a = orderId") simp_all
qed

text \<open>
  The registry is a map, so an identifier has at most one socket. A connection for an
  identifier that already has a socket stores the new socket in its place. In a run of
  publishes that follows it directly, the new socket is sent the \<open>connected\<close> message
  and then every message of the run about the identifier, in order; no other socket, the
  replaced one included, is sent any message about the identifier.
\<close>

lemma second_subscribe_replaces:
  assumes "activeConnections h orderId = Some s1" and "s1 < nextSocket h"
  shows "activeConnections (websocketRoutes orderId h) orderId = Some (nextSocket h) \<and>
         nextSocket h \<noteq> s1 \<and>
         readyState (sockets (websocketRoutes orderId h) (nextSocket h)) = 1 \<and>
         activeConnections (broadcastAll ms (websocketRoutes orderId h)) orderId
           = Some (nextSocket h) \<and>
         msgs_for orderId (sent (sockets (broadcastAll ms (websocketRoutes orderId h)) (nextSocket h)))
           = (orderId, event ''connected'' ''Waiting for order processing'') # msgs_for orderId ms \<and>
         (\<forall>c. c \<noteq> nextSocket h \<longrightarrow>
            msgs_for orderId (sent (sockets (broadcastAll ms (websocketRoutes orderId h)) c))
              = msgs_for orderId (sent (sockets h c)))"
proof -
  let ?h2 = "websocketRoutes orderId h"
  have reg: "activeConnections ?h2 orderId = Some (nextSocket h)"
    by (simp add: websocketRoutes_def Let_def)
  have opn: "readyState (sockets ?h2 (nextSocket h)) = 1"
    by (simp add: websocketRoutes_def Let_def send_def)
  have s2: "sent (sockets ?h2 (nextSocket h)) =
      [(orderId, event ''connected'' ''Waiting for order processing'')]"
    by (simp add: websocketRoutes_def Let_def send_def)
  have others: "sent (sockets ?h2 c) = sent (sockets h c)" if "c \<noteq> nextSocket h" for c
    using that by (simp add: websocketRoutes_def Let_def send_def)
  show ?thesis
    using assms reg opn
    by (auto simp: broadcastAll_msgs [OF reg opn] s2 others)
qed

lemma second_subscribe_replaces_example:
  "activeConnections (example_hub None) ''order_1'' = Some 0 \<and> 0 < nextSocket (example_hub None) \<and>
   activeConnections (websocketRoutes ''order_1'' (example_hub None)) ''order_1'' = Some 4 \<and>
   msgs_for ''order_1'' (sent (sockets
      (broadcastAll [(''order_1'', routing_event), (''order_2'', routing_event)]
         (websocketRoutes ''order_1'' (example_hub None))) 4))
     = [(''order_1'', event ''connected'' ''Waiting for order processing''),
        (''order_1'', routing_event)] \<and>
   msgs_for ''order_1'' (sent (sockets
      (broadcastAll [(''order_1'', routing_event), (''order_2'', routing_event)]
         (websocketRoutes ''order_1'' (example_hub None))) 0)) = []"
  using second_subscribe_replaces [of "example_hub None" "''order_1''" 0
      "[(''order_1'', routing_event), (''order_2'', routing_event)]"]
  by (simp add: example_hub_def example_sockets_def)

text \<open>
  The \<open>close\<close> handler deletes by identifier, whichever socket is stored there: when the
  replaced socket closes after the second connection, the registry has no socket for the
  identifier any more.
\<close>

lemma close_of_replaced_socket:
  "activeConnections (on_close orderId s1 (websocketRoutes orderId h)) orderId = None"
  by (simp add: on_close_def websocketRoutes_def Let_def send_def)

text \<open>
  C10, at the input where the code departs from it. Socket 0 watches \<open>order_1\<close>; the
  client connects again and socket 4 replaces it in the registry; then socket 0 closes.
  Socket 4 is the most recently registered socket and is open, but the registry has no
  entry for \<open>order_1\<close> any more: a publish for \<open>order_1\<close> changes nothing when the
  standalone server is not running, and when it runs the event goes to its open client,
  socket 2. In both cases socket 4 has been sent the \<open>connected\<close> message only.
\<close>

theorem stale_close_drops_publish:
  "activeConnections (example_hub None) ''order_1'' = Some 0 \<and>
   activeConnections (reconnected_hub None) ''order_1'' = Some 4 \<and>
   readyState (sockets (stale_closed_hub None) 4) = 1 \<and>
   activeConnections (stale_closed_hub None) ''order_1'' = None \<and>
   broadcastUpdate ''order_1'' routing_event (stale_closed_hub None) = stale_closed_hub None \<and>
   sent (sockets (broadcastUpdate ''order_1'' routing_event (stale_closed_hub None)) 4)
     = [(''order_1'', event ''connected'' ''Waiting for order processing'')] \<and>
   readyState (sockets (stale_closed_hub (Some [2, 3])) 4) = 1 \<and>
   sent (sockets (broadcastUpdate ''order_1'' routing_event (stale_closed_hub (Some [2, 3]))) 4)
     = [(''order_1'', event ''connected'' ''Waiting for order processing'')] \<and>
   sent (sockets (broadcastUpdate ''order_1'' routing_event (stale_closed_hub (Some [2, 3]))) 2)
     = [(''order_1'', routing_event)]"
  by (simp add: stale_closed_hub_def reconnected_hub_def example_hub_def example_sockets_def
      on_close_def websocketRoutes_def send_def Let_def broadcastUpdate_def open_sink_def
      fallback_def)

end
